theory Spec2Isabelle
  imports Main "HOL-Library.Sublist" "HOL-Library.AList"
begin

section \<open>JavaScript values\<close>

text \<open>
  The adapter is TypeScript: every value that crosses the wire is a JSON value, and the
  client and the tool handlers use three pieces of the language's semantics on them:
  truthiness (\<open>a || b\<close>, \<open>body ? \<dots> : \<dots>\<close>), conversion to a string (\<open>String(v)\<close> and
  template literals) and assignment to a property of an object. Numbers are the integers
  that a double holds exactly (limits, offsets, durations, HTTP statuses, counts); strings
  are lists of bytes.
\<close>

datatype js = JUndefined | JNull | JBool bool | JNum int | JStr string
  | JArr "js list" | JObj "(string \<times> js) list"

fun truthy :: "js \<Rightarrow> bool" where
  "truthy JUndefined = False"
| "truthy JNull = False"
| "truthy (JBool b) = b"
| "truthy (JNum n) = (n \<noteq> 0)"
| "truthy (JStr s) = (s \<noteq> [])"
| "truthy (JArr xs) = True"
| "truthy (JObj kvs) = True"

text \<open>\<open>a || b\<close>.\<close>

definition js_or :: "js \<Rightarrow> js \<Rightarrow> js" where
  "js_or a b = (if truthy a then a else b)"

text \<open>An optional string field (\<open>error?: string\<close>): absent is \<open>undefined\<close>.\<close>

definition opt_str :: "string option \<Rightarrow> js" where
  "opt_str s = (case s of None \<Rightarrow> JUndefined | Some t \<Rightarrow> JStr t)"

definition opt_bool :: "bool option \<Rightarrow> js" where
  "opt_bool b = (case b of None \<Rightarrow> JUndefined | Some t \<Rightarrow> JBool t)"

definition opt_num :: "int option \<Rightarrow> js" where
  "opt_num n = (case n of None \<Rightarrow> JUndefined | Some t \<Rightarrow> JNum t)"

definition digit_char :: "nat \<Rightarrow> char" where
  "digit_char n = ''0123456789'' ! (n mod 10)"

fun digits :: "nat \<Rightarrow> string" where
  "digits n = (if n < 10 then [digit_char n] else digits (n div 10) @ [digit_char (n mod 10)])"

text \<open>
  \<open>String(n)\<close> for an integer \<open>n\<close> (one that a double holds exactly): plain decimal digits
  below \<open>10^21\<close>, and from there on exponent notation, the digits without their trailing
  zeros and a point after the first: \<open>String(1e21)\<close> is \<open>1e+21\<close>.
\<close>

definition exponent_notation :: "nat \<Rightarrow> string" where
  "exponent_notation n =
     (let ds = digits n;
          significant = rev (dropWhile (\<lambda>c. c = CHR ''0'') (rev ds))
      in (case significant of
            [] \<Rightarrow> []
          | [c] \<Rightarrow> [c]
          | c # cs \<Rightarrow> c # CHR ''.'' # cs) @ ''e+'' @ digits (length ds - 1))"

definition Number_magnitude :: "nat \<Rightarrow> string" where
  "Number_magnitude n = (if n < 1000000000000000000000 then digits n else exponent_notation n)"

definition Number_toString :: "int \<Rightarrow> string" where
  "Number_toString n =
     (if n < 0 then CHR ''-'' # Number_magnitude (nat (- n)) else Number_magnitude (nat n))"

fun join :: "string \<Rightarrow> string list \<Rightarrow> string" where
  "join sep [] = []"
| "join sep [x] = x"
| "join sep (x # y # ys) = x @ sep @ join sep (y # ys)"

text \<open>\<open>String(v)\<close>, also what a template literal does to \<open>${v}\<close>.\<close>

fun js_String :: "js \<Rightarrow> string" where
  "js_String JUndefined = ''undefined''"
| "js_String JNull = ''null''"
| "js_String (JBool b) = (if b then ''true'' else ''false'')"
| "js_String (JNum n) = Number_toString n"
| "js_String (JStr s) = s"
| "js_String (JArr xs) =
     join '','' (map (\<lambda>v. if v = JUndefined \<or> v = JNull then [] else js_String v) xs)"
| "js_String (JObj kvs) = ''[object Object]''"

section \<open>Errors\<close>

text \<open>A thrown \<open>Error\<close> object: the client looks at its \<open>name\<close>, the tools at its \<open>message\<close>.\<close>

record js_error =
  name :: string
  message :: string

text \<open>\<open>new Error(m)\<close>.\<close>

definition new_Error :: "js \<Rightarrow> js_error" where
  "new_Error m = \<lparr>name = ''Error'', message = (if m = JUndefined then [] else js_String m)\<rparr>"

text \<open>What \<open>response.json()\<close> throws on a body that is not JSON.\<close>

definition SyntaxError :: "string \<Rightarrow> js_error" where
  "SyntaxError m = \<lparr>name = ''SyntaxError'', message = m\<rparr>"

text \<open>What \<open>fetch\<close> rejects with when the connection fails.\<close>

definition FetchError :: "string \<Rightarrow> js_error" where
  "FetchError m = \<lparr>name = ''FetchError'', message = m\<rparr>"

text \<open>What \<open>fetch\<close> rejects with when its signal is aborted.\<close>

definition AbortError :: js_error where
  "AbortError = \<lparr>name = ''AbortError'', message = ''The operation was aborted.''\<rparr>"

text \<open>Reading a property of \<open>undefined\<close>.\<close>

definition TypeError_undefined :: "string \<Rightarrow> js_error" where
  "TypeError_undefined p =
     \<lparr>name = ''TypeError'',
      message = ''Cannot read properties of undefined (reading '' @ [CHR 0x27] @ p @ [CHR 0x27] @ '')''\<rparr>"

section \<open>Data model (types.ts)\<close>

record PaginationMeta =
  total :: int
  page :: int
  limit :: int
  totalPages :: int
  hasMore :: bool
  sortBy :: "string option"
  sortOrder :: "string option"

text \<open>
  The envelope of every response. The client casts the parsed body to this interface
  (\<open>as AlfredApiResponse<T>\<close>), and the model takes a body that parses to have this
  shape: \<open>error\<close> and \<open>message\<close> are strings when present, \<open>data\<close> is a \<open>T\<close> when present.
\<close>

record 'a AlfredApiResponse =
  success :: bool
  data :: "'a option"
  error :: "string option"
  message :: "string option"
  meta :: "PaginationMeta option"

section \<open>The remote service and fetch\<close>

text \<open>
  What the client hands to \<open>fetch\<close>: the URL and the init object. \<open>body\<close> is the value that
  was given to \<open>JSON.stringify\<close>, or \<open>None\<close> for \<open>undefined\<close>.
\<close>

record fetch_init =
  url :: string
  "method" :: string
  headers :: "(string \<times> string) list"
  body :: "js option"

text \<open>
  An HTTP response, as \<open>fetch\<close> resolves with it once the status line and the headers are
  in. The body comes later: \<open>json\<close> is what the promise \<open>response.json()\<close> settles with,
  the parsed envelope or the message of the parser's error, and \<open>None\<close> when the body never
  completes and the promise never settles.
\<close>

record 'a Response =
  status :: int
  statusText :: string
  json :: "(string + 'a AlfredApiResponse) option"

definition ok :: "'a Response \<Rightarrow> bool" where
  "ok response = (200 \<le> status response \<and> status response \<le> 299)"

text \<open>
  The remote service decides, for each request, whether and when (in milliseconds after
  the call) the response headers arrive or the connection fails, and whether the body of
  the response ever completes. The network keeps the log of the calls made: the request,
  and whether it was aborted in flight.
\<close>

datatype 'a settles = Never | Responds nat "'a Response" | Rejects nat string

record 'a network =
  respond :: "fetch_init \<Rightarrow> 'a settles"
  calls :: "(fetch_init \<times> bool) list"

text \<open>
  \<open>setTimeout(f, t)\<close> in Node: a delay below 1 or above \<open>2^31 - 1\<close> is set to 1.
\<close>

definition setTimeout_delay :: "int \<Rightarrow> nat" where
  "setTimeout_delay t = (if 1 \<le> t \<and> t \<le> 2147483647 then nat t else 1)"

text \<open>
  \<open>fetch(url, {\<dots>, signal})\<close> with the signal of a controller that a timer aborts after
  \<open>deadline\<close> milliseconds: the promise resolves with the response when its headers arrive
  by the deadline, rejects when the connection fails by the deadline, and the timer aborts
  the call otherwise. The client clears the timer as soon as \<open>fetch\<close> has resolved, so the
  timer never fires while the body is read.
\<close>

definition fetch :: "'a network \<Rightarrow> fetch_init \<Rightarrow> nat \<Rightarrow> (js_error + 'a Response) \<times> 'a network" where
  "fetch net init deadline =
     (case respond net init of
        Never \<Rightarrow> (Inl AbortError, net\<lparr>calls := calls net @ [(init, True)]\<rparr>)
      | Responds d response \<Rightarrow>
          if d \<le> deadline then (Inr response, net\<lparr>calls := calls net @ [(init, False)]\<rparr>)
          else (Inl AbortError, net\<lparr>calls := calls net @ [(init, True)]\<rparr>)
      | Rejects d m \<Rightarrow>
          if d \<le> deadline then (Inl (FetchError m), net\<lparr>calls := calls net @ [(init, False)]\<rparr>)
          else (Inl AbortError, net\<lparr>calls := calls net @ [(init, True)]\<rparr>))"

section \<open>The client (client.ts)\<close>

record AlfredClientConfig =
  apiKey :: string
  baseUrl :: string
  timeout :: int

text \<open>
  A promise that never settles is \<open>None\<close>: an asynchronous function returns
  \<open>Some (Inr value)\<close>, throws \<open>Some (Inl error)\<close>, or stays pending for ever.

  \<open>AlfredClient.request\<close>. The whole body of the method is inside \<open>try\<close>: \<open>attempt\<close> is
  what the \<open>try\<close> block returns or throws, and the \<open>catch\<close> renames an \<open>AbortError\<close> and
  rethrows anything else. \<open>clearTimeout\<close> comes right after \<open>fetch\<close> and before
  \<open>await response.json()\<close>: nothing bounds the time that the body takes.
\<close>

definition request ::
  "AlfredClientConfig \<Rightarrow> 'a network \<Rightarrow> string \<Rightarrow> string \<Rightarrow> js
     \<Rightarrow> (js_error + 'a AlfredApiResponse) option \<times> 'a network" where
  "request cfg net method' path body' =
     (let url' = baseUrl cfg @ path;
          init = \<lparr>url = url', method = method',
                  headers = [(''X-API-Key'', apiKey cfg), (''Content-Type'', ''application/json'')],
                  body = (if truthy body' then Some body' else None)\<rparr>;
          (fetched, net') = fetch net init (setTimeout_delay (timeout cfg));
          attempt =
            (case fetched of
               Inl e \<Rightarrow> Some (Inl e)
             | Inr response \<Rightarrow>
                 (case json response of
                    None \<Rightarrow> None
                  | Some (Inl m) \<Rightarrow> Some (Inl (SyntaxError m))
                  | Some (Inr data') \<Rightarrow>
                      if \<not> ok response
                      then Some (Inl (new_Error
                             (js_or (opt_str (error data'))
                                (js_or (opt_str (message data'))
                                   (JStr (''HTTP '' @ Number_toString (status response) @ '': ''
                                            @ statusText response))))))
                      else Some (Inr data')))
      in (case attempt of
            None \<Rightarrow> None
          | Some (Inl e) \<Rightarrow>
              if name e = ''AbortError''
              then Some (Inl (new_Error (JStr (''Request timeout after ''
                                          @ Number_toString (timeout cfg) @ ''ms''))))
              else Some (Inl e)
          | Some (Inr data') \<Rightarrow> Some (Inr data'),
          net'))"

subsection \<open>Query strings\<close>

text \<open>
  A \<open>URLSearchParams\<close> object is its list of name-value pairs; \<open>append\<close> (here \<open>query_append\<close>) adds a pair at the
  end and \<open>toString\<close> serialises the list as \<open>application/x-www-form-urlencoded\<close>.
\<close>

type_synonym URLSearchParams = "(string \<times> string) list"

definition query_append :: "URLSearchParams \<Rightarrow> string \<Rightarrow> string \<Rightarrow> URLSearchParams" where
  "query_append query key value = query @ [(key, value)]"

definition hex_char :: "nat \<Rightarrow> char" where
  "hex_char n = ''0123456789ABCDEF'' ! (n mod 16)"

definition urlencode_byte :: "char \<Rightarrow> string" where
  "urlencode_byte c =
     (if c \<in> set ''abcdefghijklmnopqrstuvwxyzABCDEFGHIJKLMNOPQRSTUVWXYZ0123456789*-._'' then [c]
      else if c = CHR '' '' then ''+''
      else [CHR ''%'', hex_char (of_char c div 16), hex_char (of_char c mod 16)])"

definition urlencode :: "string \<Rightarrow> string" where
  "urlencode s = concat (map urlencode_byte s)"

definition toString :: "URLSearchParams \<Rightarrow> string" where
  "toString query = join ''&'' (map (\<lambda>(key, value). urlencode key @ ''='' @ urlencode value) query)"

text \<open>
  The loop that the four list operations share, word for word:
  \<^verbatim>\<open>
  const query = new URLSearchParams();
  if (params) {
    Object.entries(params).forEach(([key, value]) => {
      if (value !== undefined) { query.append(key, String(value)); }
    });
  }
  \<close>
  The filter object is its list of entries, in insertion order; a field that the caller
  left out of an object literal built from optional inputs is an entry whose value is
  \<open>undefined\<close>.
\<close>

definition build_query :: "(string \<times> js) list option \<Rightarrow> URLSearchParams" where
  "build_query params =
     (case params of
        None \<Rightarrow> []
      | Some entries \<Rightarrow>
          foldl (\<lambda>query (key, value).
                   if value \<noteq> JUndefined then query_append query key (js_String value) else query)
                [] entries)"

text \<open>\<open>${queryString ? `?${queryString}` : ""}\<close>\<close>

definition query_suffix :: "string \<Rightarrow> string" where
  "query_suffix queryString = (if queryString \<noteq> [] then ''?'' @ queryString else [])"

subsection \<open>Skills\<close>

definition listSkills ::
  "AlfredClientConfig \<Rightarrow> 'a network \<Rightarrow> (string \<times> js) list option
     \<Rightarrow> (js_error + 'a AlfredApiResponse) option \<times> 'a network" where
  "listSkills cfg net params =
     (let query = build_query params; queryString = toString query
      in request cfg net ''GET'' (''/skills'' @ query_suffix queryString) JUndefined)"

definition getSkill ::
  "AlfredClientConfig \<Rightarrow> 'a network \<Rightarrow> string \<Rightarrow> (js_error + 'a AlfredApiResponse) option \<times> 'a network" where
  "getSkill cfg net id' = request cfg net ''GET'' (''/skills/'' @ id') JUndefined"

definition createSkill ::
  "AlfredClientConfig \<Rightarrow> 'a network \<Rightarrow> js \<Rightarrow> (js_error + 'a AlfredApiResponse) option \<times> 'a network" where
  "createSkill cfg net data' = request cfg net ''POST'' ''/skills'' data'"

definition updateSkill ::
  "AlfredClientConfig \<Rightarrow> 'a network \<Rightarrow> string \<Rightarrow> js
     \<Rightarrow> (js_error + 'a AlfredApiResponse) option \<times> 'a network" where
  "updateSkill cfg net id' data' = request cfg net ''PUT'' (''/skills/'' @ id') data'"

definition patchSkill ::
  "AlfredClientConfig \<Rightarrow> 'a network \<Rightarrow> string \<Rightarrow> js
     \<Rightarrow> (js_error + 'a AlfredApiResponse) option \<times> 'a network" where
  "patchSkill cfg net id' data' = request cfg net ''PATCH'' (''/skills/'' @ id') data'"

definition deleteSkill ::
  "AlfredClientConfig \<Rightarrow> 'a network \<Rightarrow> string \<Rightarrow> bool option
     \<Rightarrow> (js_error + 'a AlfredApiResponse) option \<times> 'a network" where
  "deleteSkill cfg net id' force =
     (let query = (if truthy (opt_bool force) then ''?force=true'' else [])
      in request cfg net ''DELETE'' (''/skills/'' @ id' @ query) JUndefined)"

subsection \<open>Connections\<close>

definition listConnections ::
  "AlfredClientConfig \<Rightarrow> 'a network \<Rightarrow> (string \<times> js) list option
     \<Rightarrow> (js_error + 'a AlfredApiResponse) option \<times> 'a network" where
  "listConnections cfg net params =
     (let query = build_query params; queryString = toString query
      in request cfg net ''GET'' (''/connections'' @ query_suffix queryString) JUndefined)"

definition getConnection ::
  "AlfredClientConfig \<Rightarrow> 'a network \<Rightarrow> string \<Rightarrow> (js_error + 'a AlfredApiResponse) option \<times> 'a network" where
  "getConnection cfg net id' = request cfg net ''GET'' (''/connections/'' @ id') JUndefined"

definition createConnection ::
  "AlfredClientConfig \<Rightarrow> 'a network \<Rightarrow> js \<Rightarrow> (js_error + 'a AlfredApiResponse) option \<times> 'a network" where
  "createConnection cfg net data' = request cfg net ''POST'' ''/connections'' data'"

definition updateConnection ::
  "AlfredClientConfig \<Rightarrow> 'a network \<Rightarrow> string \<Rightarrow> js
     \<Rightarrow> (js_error + 'a AlfredApiResponse) option \<times> 'a network" where
  "updateConnection cfg net id' data' =
     request cfg net ''PUT'' (''/connections/'' @ id') data'"

definition patchConnection ::
  "AlfredClientConfig \<Rightarrow> 'a network \<Rightarrow> string \<Rightarrow> js
     \<Rightarrow> (js_error + 'a AlfredApiResponse) option \<times> 'a network" where
  "patchConnection cfg net id' data' =
     request cfg net ''PATCH'' (''/connections/'' @ id') data'"

definition deleteConnection ::
  "AlfredClientConfig \<Rightarrow> 'a network \<Rightarrow> string \<Rightarrow> (js_error + 'a AlfredApiResponse) option \<times> 'a network" where
  "deleteConnection cfg net id' =
     request cfg net ''DELETE'' (''/connections/'' @ id') JUndefined"

subsection \<open>Executions\<close>

definition listExecutions ::
  "AlfredClientConfig \<Rightarrow> 'a network \<Rightarrow> (string \<times> js) list option
     \<Rightarrow> (js_error + 'a AlfredApiResponse) option \<times> 'a network" where
  "listExecutions cfg net params =
     (let query = build_query params; queryString = toString query
      in request cfg net ''GET'' (''/executions'' @ query_suffix queryString) JUndefined)"

definition getExecution ::
  "AlfredClientConfig \<Rightarrow> 'a network \<Rightarrow> string \<Rightarrow> (js_error + 'a AlfredApiResponse) option \<times> 'a network" where
  "getExecution cfg net id' = request cfg net ''GET'' (''/executions/'' @ id') JUndefined"

definition getExecutionTrace ::
  "AlfredClientConfig \<Rightarrow> 'a network \<Rightarrow> string \<Rightarrow> (js_error + 'a AlfredApiResponse) option \<times> 'a network" where
  "getExecutionTrace cfg net id' =
     request cfg net ''GET'' (''/executions/'' @ id' @ ''/trace'') JUndefined"

definition getExecutionStats ::
  "AlfredClientConfig \<Rightarrow> 'a network \<Rightarrow> (string \<times> js) list option
     \<Rightarrow> (js_error + 'a AlfredApiResponse) option \<times> 'a network" where
  "getExecutionStats cfg net params =
     (let query = build_query params; queryString = toString query
      in request cfg net ''GET'' (''/executions/stats'' @ query_suffix queryString) JUndefined)"

definition deleteExecution ::
  "AlfredClientConfig \<Rightarrow> 'a network \<Rightarrow> string \<Rightarrow> (js_error + 'a AlfredApiResponse) option \<times> 'a network" where
  "deleteExecution cfg net id' =
     request cfg net ''DELETE'' (''/executions/'' @ id') JUndefined"

subsection \<open>API keys\<close>

definition createApiKey ::
  "AlfredClientConfig \<Rightarrow> 'a network \<Rightarrow> js \<Rightarrow> (js_error + 'a AlfredApiResponse) option \<times> 'a network" where
  "createApiKey cfg net data' = request cfg net ''POST'' ''/auth/keys'' data'"

definition listApiKeys ::
  "AlfredClientConfig \<Rightarrow> 'a network \<Rightarrow> (js_error + 'a AlfredApiResponse) option \<times> 'a network" where
  "listApiKeys cfg net = request cfg net ''GET'' ''/auth/keys'' JUndefined"

definition deleteApiKey ::
  "AlfredClientConfig \<Rightarrow> 'a network \<Rightarrow> string \<Rightarrow> (js_error + 'a AlfredApiResponse) option \<times> 'a network" where
  "deleteApiKey cfg net id' = request cfg net ''DELETE'' (''/auth/keys/'' @ id') JUndefined"

section \<open>Tool results\<close>

text \<open>
  A tool handler returns \<open>{content: [{type: "text", text}], isError?}\<close>. The text is a
  template literal, or \<open>JSON.stringify(v)\<close>, or \<open>JSON.stringify(v, null, 2)\<close> of an object
  that the handler builds; the serialiser is the runtime's, so the text keeps the value
  that was serialised.
\<close>

datatype tool_text = Text string | JSON_stringify js | JSON_stringify_2 js

record CallToolResult =
  content :: "tool_text list"
  isError :: "bool option"

definition text_result :: "tool_text \<Rightarrow> CallToolResult" where
  "text_result t = \<lparr>content = [t], isError = None\<rparr>"

definition error_result :: "tool_text \<Rightarrow> CallToolResult" where
  "error_result t = \<lparr>content = [t], isError = Some True\<rparr>"

text \<open>
  \<open>const response = await promise\<close> and the statements after it: a pending promise keeps the
  whole block pending, a rejected one throws, a resolved one goes on with its value.
\<close>

definition await ::
  "(js_error + 'x) option \<Rightarrow> ('x \<Rightarrow> js_error + 'r) \<Rightarrow> (js_error + 'r) option" where
  "await promise continue =
     (case promise of
        None \<Rightarrow> None
      | Some (Inl e) \<Rightarrow> Some (Inl e)
      | Some (Inr x) \<Rightarrow> Some (continue x))"

text \<open>
  \<open>try { block } catch (error) { handler }\<close>, for a handler that does not throw: the only
  statements in the \<open>catch\<close> blocks of the tools read \<open>error.message\<close> and build the result.
  A block that stays pending never reaches the \<open>catch\<close>.
\<close>

definition try_catch ::
  "(js_error + 'r) option \<Rightarrow> (js_error \<Rightarrow> 'r) \<Rightarrow> (js_error + 'r) option" where
  "try_catch block handler =
     (case block of
        None \<Rightarrow> None
      | Some (Inl e) \<Rightarrow> Some (Inr (handler e))
      | Some (Inr r) \<Rightarrow> Some (Inr r))"

definition opt_js :: "js option \<Rightarrow> js" where
  "opt_js v = (case v of None \<Rightarrow> JUndefined | Some t \<Rightarrow> t)"

definition js_strings :: "string list \<Rightarrow> js" where
  "js_strings xs = JArr (map JStr xs)"

definition js_of_PaginationMeta :: "PaginationMeta \<Rightarrow> js" where
  "js_of_PaginationMeta m =
     JObj [(''total'', JNum (total m)), (''page'', JNum (page m)), (''limit'', JNum (limit m)),
           (''totalPages'', JNum (totalPages m)), (''hasMore'', JBool (hasMore m)),
           (''sortBy'', opt_str (sortBy m)), (''sortOrder'', opt_str (sortOrder m))]"

definition opt_meta :: "PaginationMeta option \<Rightarrow> js" where
  "opt_meta m = (case m of None \<Rightarrow> JUndefined | Some t \<Rightarrow> js_of_PaginationMeta t)"

section \<open>Skills tools (tools/skills.ts)\<close>

record SkillStep =
  id :: int
  prompt :: string
  guidance :: string
  allowedTools :: "string list"
  connectionNames :: "string list option"

definition js_of_SkillStep :: "SkillStep \<Rightarrow> js" where
  "js_of_SkillStep step =
     JObj [(''id'', JNum (SkillStep.id step)), (''prompt'', JStr (prompt step)),
           (''guidance'', JStr (guidance step)), (''allowedTools'', js_strings (allowedTools step)),
           (''connectionNames'',
              (case SkillStep.connectionNames step of None \<Rightarrow> JUndefined | Some ns \<Rightarrow> js_strings ns))]"

text \<open>
  The input of \<open>alfred_list_skills\<close>: \<open>'n\<close> is \<open>int option\<close> for what the caller sends and
  \<open>int\<close> for what \<open>ListSkillsInputSchema\<close> hands to the handler, \<open>limit\<close> and \<open>offset\<close>
  being \<open>.optional().default(\<dots>)\<close>.
\<close>

record 'n ListSkillsInput =
  isActive :: "bool option"
  triggerType :: "string option"
  isSystem :: "bool option"
  limit :: 'n
  offset :: 'n
  sortBy :: "string option"
  sortOrder :: "string option"

text \<open>\<open>z.enum(values).optional()\<close>\<close>

definition optional_enum :: "string list \<Rightarrow> string option \<Rightarrow> bool" where
  "optional_enum values v = (case v of None \<Rightarrow> True | Some s \<Rightarrow> s \<in> set values)"

text \<open>\<open>.default(d)\<close>\<close>

definition default :: "int \<Rightarrow> int option \<Rightarrow> int" where
  "default d v = (case v of None \<Rightarrow> d | Some n \<Rightarrow> n)"

definition ListSkillsInputSchema :: "int option ListSkillsInput \<Rightarrow> int ListSkillsInput option" where
  "ListSkillsInputSchema raw =
     (if optional_enum [''manual'', ''scheduled'', ''webhook''] (ListSkillsInput.triggerType raw)
         \<and> (case ListSkillsInput.limit raw of None \<Rightarrow> True | Some n \<Rightarrow> 0 < n)
         \<and> (case ListSkillsInput.offset raw of None \<Rightarrow> True | Some n \<Rightarrow> 0 \<le> n)
         \<and> optional_enum [''asc'', ''desc''] (ListSkillsInput.sortOrder raw)
      then Some \<lparr>ListSkillsInput.isActive = ListSkillsInput.isActive raw,
                 triggerType = ListSkillsInput.triggerType raw,
                 isSystem = ListSkillsInput.isSystem raw,
                 limit = default 50 (ListSkillsInput.limit raw),
                 offset = default 0 (ListSkillsInput.offset raw),
                 sortBy = ListSkillsInput.sortBy raw,
                 sortOrder = ListSkillsInput.sortOrder raw\<rparr>
      else None)"

definition alfred_list_skills ::
  "AlfredClientConfig \<Rightarrow> js network \<Rightarrow> int ListSkillsInput
     \<Rightarrow> (js_error + CallToolResult) option \<times> js network" where
  "alfred_list_skills cfg net input =
     (let (awaited, net') =
            listSkills cfg net
              (Some [(''isActive'', opt_bool (ListSkillsInput.isActive input)),
                     (''triggerType'', opt_str (ListSkillsInput.triggerType input)),
                     (''isSystem'', opt_bool (ListSkillsInput.isSystem input)),
                     (''limit'', js_or (JNum (ListSkillsInput.limit input)) (JNum 50)),
                     (''offset'', js_or (JNum (ListSkillsInput.offset input)) (JNum 0)),
                     (''sortBy'', opt_str (ListSkillsInput.sortBy input)),
                     (''sortOrder'', opt_str (ListSkillsInput.sortOrder input))])
      in (try_catch
            (await awaited (\<lambda>response.
                 if \<not> success response
                 then Inr (text_result (JSON_stringify (JObj
                        [(''error'', js_or (opt_str (AlfredApiResponse.error response))
                                       (JStr ''Failed to list skills'')),
                         (''success'', JBool False)])))
                 else Inr (text_result (JSON_stringify (JObj
                        [(''success'', JBool True),
                         (''skills'', js_or (opt_js (data response)) (JArr [])),
                         (''pagination'', js_or (opt_meta (meta response)) JUndefined)])))))
            (\<lambda>error. text_result (JSON_stringify (JObj
                        [(''error'', JStr (''Failed to list skills: '' @ js_error.message error)),
                         (''success'', JBool False)]))),
          net'))"

text \<open>
  In every \<open>catch\<close> of this file the message is
  \<open>error instanceof Error ? error.message : "Unknown error"\<close>; what the client and the
  runtime throw are \<open>Error\<close> objects, so it is \<open>error.message\<close>.
\<close>

definition alfred_get_skill ::
  "AlfredClientConfig \<Rightarrow> js network \<Rightarrow> string \<Rightarrow> (js_error + CallToolResult) option \<times> js network" where
  "alfred_get_skill cfg net skillId' =
     (let (awaited, net') = getSkill cfg net skillId'
      in (try_catch
            (await awaited (\<lambda>response.
                 if \<not> success response
                 then Inr (text_result (JSON_stringify (JObj
                        [(''error'', js_or (opt_str (AlfredApiResponse.error response))
                                       (JStr ''Skill not found'')),
                         (''success'', JBool False)])))
                 else Inr (text_result (JSON_stringify (JObj
                        [(''success'', JBool True),
                         (''skill'', opt_js (data response))])))))
            (\<lambda>error. text_result (JSON_stringify (JObj
                        [(''error'', JStr (''Failed to retrieve skill: '' @ js_error.message error)),
                         (''success'', JBool False)]))),
          net'))"

text \<open>
  \<open>CreateSkillInputSchema\<close> after parsing: \<open>isActive\<close> is \<open>.default(true)\<close>, so the handler
  sees a boolean.
\<close>

record CreateSkillInput =
  name :: string
  description :: "string option"
  triggerType :: string
  steps :: "SkillStep list"
  connectionNames :: "string list option"
  isActive :: bool

text \<open>\<open>input.connectionNames || []\<close>: an array is truthy, also the empty one.\<close>

definition skillData :: "'z CreateSkillInput_scheme \<Rightarrow> js" where
  "skillData input =
     JObj [(''name'', JStr (CreateSkillInput.name input)),
           (''description'', opt_str (CreateSkillInput.description input)),
           (''triggerType'', JStr (CreateSkillInput.triggerType input)),
           (''steps'', JArr (map js_of_SkillStep (CreateSkillInput.steps input))),
           (''connectionNames'',
              (case CreateSkillInput.connectionNames input of
                 None \<Rightarrow> JArr [] | Some ns \<Rightarrow> js_strings ns)),
           (''isActive'', JBool (CreateSkillInput.isActive input \<noteq> False))]"

definition alfred_create_skill ::
  "AlfredClientConfig \<Rightarrow> js network \<Rightarrow> CreateSkillInput
     \<Rightarrow> (js_error + CallToolResult) option \<times> js network" where
  "alfred_create_skill cfg net input =
     (let (awaited, net') = createSkill cfg net (skillData input)
      in (try_catch
            (await awaited (\<lambda>response.
                 if \<not> success response
                 then Inr (text_result (JSON_stringify (JObj
                        [(''error'', js_or (opt_str (AlfredApiResponse.error response))
                                       (JStr ''Failed to create skill'')),
                         (''success'', JBool False)])))
                 else Inr (text_result (JSON_stringify (JObj
                        [(''success'', JBool True),
                         (''skill'', opt_js (data response)),
                         (''message'', JStr (''Skill '' @ [CHR 0x22] @ CreateSkillInput.name input
                                          @ [CHR 0x22] @ '' created successfully''))])))))
            (\<lambda>error. text_result (JSON_stringify (JObj
                        [(''error'', JStr (''Failed to create skill: '' @ js_error.message error)),
                         (''success'', JBool False)]))),
          net'))"

text \<open>The input of \<open>alfred_update_skill\<close>: \<open>skillId\<close> and the shape of \<open>CreateSkillInputSchema\<close>.\<close>

record UpdateSkillInput = CreateSkillInput +
  skillId :: string

definition alfred_update_skill ::
  "AlfredClientConfig \<Rightarrow> js network \<Rightarrow> UpdateSkillInput
     \<Rightarrow> (js_error + CallToolResult) option \<times> js network" where
  "alfred_update_skill cfg net input =
     (let (awaited, net') = updateSkill cfg net (UpdateSkillInput.skillId input) (skillData input)
      in (try_catch
            (await awaited (\<lambda>response.
                 if \<not> success response
                 then Inr (text_result (JSON_stringify (JObj
                        [(''error'', js_or (opt_str (AlfredApiResponse.error response))
                                       (JStr ''Failed to update skill'')),
                         (''success'', JBool False)])))
                 else Inr (text_result (JSON_stringify (JObj
                        [(''success'', JBool True),
                         (''skill'', opt_js (data response)),
                         (''message'', JStr ''Skill updated successfully'')])))))
            (\<lambda>error. text_result (JSON_stringify (JObj
                        [(''error'', JStr (''Failed to update skill: '' @ js_error.message error)),
                         (''success'', JBool False)]))),
          net'))"

text \<open>
  The input of \<open>alfred_patch_skill\<close>: every field but \<open>skillId\<close> is \<open>.optional()\<close>, and a
  field that the caller did not supply is \<open>undefined\<close>.
\<close>

record PatchSkillInput =
  skillId :: string
  name :: "string option"
  description :: "string option"
  triggerType :: "string option"
  steps :: "SkillStep list option"
  connectionNames :: "string list option"
  isActive :: "bool option"

text \<open>
  \<open>obj[key] = value\<close> on an object kept as its list of entries: the value of an existing key
  is replaced in place, a new key goes to the end.
\<close>

definition assign :: "(string \<times> js) list \<Rightarrow> string \<Rightarrow> js \<Rightarrow> (string \<times> js) list" where
  "assign obj key value = AList.update key value obj"

text \<open>
  \<^verbatim>\<open>
  const updateFields: Record<string, any> = {};
  if (patchData.name !== undefined) updateFields.name = patchData.name;
  \<dots>
  \<close>
\<close>

definition patch_skill_updateFields :: "PatchSkillInput \<Rightarrow> (string \<times> js) list" where
  "patch_skill_updateFields patchData =
     (let updateFields = [];
          updateFields = (case PatchSkillInput.name patchData of
                            None \<Rightarrow> updateFields
                          | Some v \<Rightarrow> assign updateFields ''name'' (JStr v));
          updateFields = (case PatchSkillInput.description patchData of
                            None \<Rightarrow> updateFields
                          | Some v \<Rightarrow> assign updateFields ''description'' (JStr v));
          updateFields = (case PatchSkillInput.triggerType patchData of
                            None \<Rightarrow> updateFields
                          | Some v \<Rightarrow> assign updateFields ''triggerType'' (JStr v));
          updateFields = (case PatchSkillInput.steps patchData of
                            None \<Rightarrow> updateFields
                          | Some v \<Rightarrow> assign updateFields ''steps'' (JArr (map js_of_SkillStep v)));
          updateFields = (case PatchSkillInput.connectionNames patchData of
                            None \<Rightarrow> updateFields
                          | Some v \<Rightarrow> assign updateFields ''connectionNames'' (js_strings v));
          updateFields = (case PatchSkillInput.isActive patchData of
                            None \<Rightarrow> updateFields
                          | Some v \<Rightarrow> assign updateFields ''isActive'' (JBool v))
      in updateFields)"

definition alfred_patch_skill ::
  "AlfredClientConfig \<Rightarrow> js network \<Rightarrow> PatchSkillInput
     \<Rightarrow> (js_error + CallToolResult) option \<times> js network" where
  "alfred_patch_skill cfg net input =
     (let (awaited, net') = patchSkill cfg net (PatchSkillInput.skillId input)
                              (JObj (patch_skill_updateFields input))
      in (try_catch
            (await awaited (\<lambda>response.
                 if \<not> success response
                 then Inr (text_result (JSON_stringify (JObj
                        [(''error'', js_or (opt_str (AlfredApiResponse.error response))
                                       (JStr ''Failed to patch skill'')),
                         (''success'', JBool False)])))
                 else Inr (text_result (JSON_stringify (JObj
                        [(''success'', JBool True),
                         (''skill'', opt_js (data response)),
                         (''message'', JStr ''Skill patched successfully'')])))))
            (\<lambda>error. text_result (JSON_stringify (JObj
                        [(''error'', JStr (''Failed to patch skill: '' @ js_error.message error)),
                         (''success'', JBool False)]))),
          net'))"

definition alfred_delete_skill ::
  "AlfredClientConfig \<Rightarrow> js network \<Rightarrow> string \<Rightarrow> bool option
     \<Rightarrow> (js_error + CallToolResult) option \<times> js network" where
  "alfred_delete_skill cfg net skillId' force' =
     (let (awaited, net') = deleteSkill cfg net skillId' force'
      in (try_catch
            (await awaited (\<lambda>response.
                 if \<not> success response
                 then Inr (text_result (JSON_stringify (JObj
                        [(''error'', js_or (opt_str (AlfredApiResponse.error response))
                                       (JStr ''Failed to delete skill'')),
                         (''success'', JBool False)])))
                 else Inr (text_result (JSON_stringify (JObj
                        [(''success'', JBool True),
                         (''message'', JStr ''Skill deleted successfully''),
                         (''deletedSkill'', opt_js (data response))])))))
            (\<lambda>error. text_result (JSON_stringify (JObj
                        [(''error'', JStr (''Failed to delete skill: '' @ js_error.message error)),
                         (''success'', JBool False)]))),
          net'))"

section \<open>Connections tools (tools/connections.ts)\<close>

record 'n ListConnectionsInput =
  isActive :: "bool option"
  type :: "string option"
  source :: "string option"
  authStatus :: "string option"
  limit :: 'n
  offset :: 'n
  sortBy :: "string option"
  sortOrder :: "string option"

definition ListConnectionsInputSchema ::
  "int option ListConnectionsInput \<Rightarrow> int ListConnectionsInput option" where
  "ListConnectionsInputSchema raw =
     (if (case ListConnectionsInput.limit raw of None \<Rightarrow> True | Some n \<Rightarrow> 0 < n)
         \<and> (case ListConnectionsInput.offset raw of None \<Rightarrow> True | Some n \<Rightarrow> 0 \<le> n)
         \<and> optional_enum [''asc'', ''desc''] (ListConnectionsInput.sortOrder raw)
      then Some \<lparr>ListConnectionsInput.isActive = ListConnectionsInput.isActive raw,
                 type = ListConnectionsInput.type raw,
                 source = ListConnectionsInput.source raw,
                 authStatus = ListConnectionsInput.authStatus raw,
                 limit = default 50 (ListConnectionsInput.limit raw),
                 offset = default 0 (ListConnectionsInput.offset raw),
                 sortBy = ListConnectionsInput.sortBy raw,
                 sortOrder = ListConnectionsInput.sortOrder raw\<rparr>
      else None)"

definition alfred_list_connections ::
  "AlfredClientConfig \<Rightarrow> js network \<Rightarrow> int ListConnectionsInput
     \<Rightarrow> (js_error + CallToolResult) option \<times> js network" where
  "alfred_list_connections cfg net input =
     (let (awaited, net') = listConnections cfg net
              (Some [(''isActive'', opt_bool (ListConnectionsInput.isActive input)),
                     (''type'', opt_str (ListConnectionsInput.type input)),
                     (''source'', opt_str (ListConnectionsInput.source input)),
                     (''authStatus'', opt_str (ListConnectionsInput.authStatus input)),
                     (''limit'', js_or (JNum (ListConnectionsInput.limit input)) (JNum 50)),
                     (''offset'', js_or (JNum (ListConnectionsInput.offset input)) (JNum 0)),
                     (''sortBy'', opt_str (ListConnectionsInput.sortBy input)),
                     (''sortOrder'', opt_str (ListConnectionsInput.sortOrder input))])
      in (try_catch
            (await awaited (\<lambda>response.
                 if \<not> success response
                 then Inr (text_result (JSON_stringify (JObj
                        [(''error'', js_or (opt_str (AlfredApiResponse.error response))
                                       (JStr ''Failed to list connections'')),
                         (''success'', JBool False)])))
                 else Inr (text_result (JSON_stringify (JObj
                        [(''success'', JBool True),
                         (''connections'', js_or (opt_js (data response)) (JArr [])),
                         (''pagination'', js_or (opt_meta (meta response)) JUndefined)])))))
            (\<lambda>error. text_result (JSON_stringify (JObj
                        [(''error'', JStr (''Failed to list connections: '' @ js_error.message error)),
                         (''success'', JBool False)]))),
          net'))"

definition alfred_get_connection ::
  "AlfredClientConfig \<Rightarrow> js network \<Rightarrow> string \<Rightarrow> (js_error + CallToolResult) option \<times> js network" where
  "alfred_get_connection cfg net connectionId' =
     (let (awaited, net') = getConnection cfg net connectionId'
      in (try_catch
            (await awaited (\<lambda>response.
                 if \<not> success response
                 then Inr (text_result (JSON_stringify (JObj
                        [(''error'', js_or (opt_str (AlfredApiResponse.error response))
                                       (JStr ''Connection not found'')),
                         (''success'', JBool False)])))
                 else Inr (text_result (JSON_stringify (JObj
                        [(''success'', JBool True),
                         (''connection'', opt_js (data response))])))))
            (\<lambda>error. text_result (JSON_stringify (JObj
                        [(''error'', JStr (''Failed to retrieve connection: '' @ js_error.message error)),
                         (''success'', JBool False)]))),
          net'))"

record CreateConnectionInput =
  name :: string
  type :: string
  config :: js
  isActive :: bool

definition connectionData :: "'z CreateConnectionInput_scheme \<Rightarrow> js" where
  "connectionData input =
     JObj [(''name'', JStr (CreateConnectionInput.name input)),
           (''type'', JStr (CreateConnectionInput.type input)),
           (''config'', CreateConnectionInput.config input),
           (''isActive'', JBool (CreateConnectionInput.isActive input \<noteq> False))]"

definition alfred_create_connection ::
  "AlfredClientConfig \<Rightarrow> js network \<Rightarrow> CreateConnectionInput
     \<Rightarrow> (js_error + CallToolResult) option \<times> js network" where
  "alfred_create_connection cfg net input =
     (let (awaited, net') = createConnection cfg net (connectionData input)
      in (try_catch
            (await awaited (\<lambda>response.
                 if \<not> success response
                 then Inr (text_result (JSON_stringify (JObj
                        [(''error'', js_or (opt_str (AlfredApiResponse.error response))
                                       (JStr ''Failed to create connection'')),
                         (''success'', JBool False)])))
                 else Inr (text_result (JSON_stringify (JObj
                        [(''success'', JBool True),
                         (''connection'', opt_js (data response)),
                         (''message'', JStr (''Connection '' @ [CHR 0x22] @ CreateConnectionInput.name input
                                          @ [CHR 0x22] @ '' created successfully''))])))))
            (\<lambda>error. text_result (JSON_stringify (JObj
                        [(''error'', JStr (''Failed to create connection: '' @ js_error.message error)),
                         (''success'', JBool False)]))),
          net'))"

record UpdateConnectionInput = CreateConnectionInput +
  connectionId :: string

definition alfred_update_connection ::
  "AlfredClientConfig \<Rightarrow> js network \<Rightarrow> UpdateConnectionInput
     \<Rightarrow> (js_error + CallToolResult) option \<times> js network" where
  "alfred_update_connection cfg net input =
     (let (awaited, net') = updateConnection cfg net (UpdateConnectionInput.connectionId input)
                              (connectionData input)
      in (try_catch
            (await awaited (\<lambda>response.
                 if \<not> success response
                 then Inr (text_result (JSON_stringify (JObj
                        [(''error'', js_or (opt_str (AlfredApiResponse.error response))
                                       (JStr ''Failed to update connection'')),
                         (''success'', JBool False)])))
                 else Inr (text_result (JSON_stringify (JObj
                        [(''success'', JBool True),
                         (''connection'', opt_js (data response)),
                         (''message'', JStr ''Connection updated successfully'')])))))
            (\<lambda>error. text_result (JSON_stringify (JObj
                        [(''error'', JStr (''Failed to update connection: '' @ js_error.message error)),
                         (''success'', JBool False)]))),
          net'))"

record PatchConnectionInput =
  connectionId :: string
  name :: "string option"
  type :: "string option"
  config :: "js option"
  isActive :: "bool option"

definition patch_connection_updateFields :: "PatchConnectionInput \<Rightarrow> (string \<times> js) list" where
  "patch_connection_updateFields patchData =
     (let updateFields = [];
          updateFields = (case PatchConnectionInput.name patchData of
                            None \<Rightarrow> updateFields
                          | Some v \<Rightarrow> assign updateFields ''name'' (JStr v));
          updateFields = (case PatchConnectionInput.type patchData of
                            None \<Rightarrow> updateFields
                          | Some v \<Rightarrow> assign updateFields ''type'' (JStr v));
          updateFields = (case PatchConnectionInput.config patchData of
                            None \<Rightarrow> updateFields
                          | Some v \<Rightarrow> assign updateFields ''config'' v);
          updateFields = (case PatchConnectionInput.isActive patchData of
                            None \<Rightarrow> updateFields
                          | Some v \<Rightarrow> assign updateFields ''isActive'' (JBool v))
      in updateFields)"

definition alfred_patch_connection ::
  "AlfredClientConfig \<Rightarrow> js network \<Rightarrow> PatchConnectionInput
     \<Rightarrow> (js_error + CallToolResult) option \<times> js network" where
  "alfred_patch_connection cfg net input =
     (let (awaited, net') = patchConnection cfg net (PatchConnectionInput.connectionId input)
                              (JObj (patch_connection_updateFields input))
      in (try_catch
            (await awaited (\<lambda>response.
                 if \<not> success response
                 then Inr (text_result (JSON_stringify (JObj
                        [(''error'', js_or (opt_str (AlfredApiResponse.error response))
                                       (JStr ''Failed to patch connection'')),
                         (''success'', JBool False)])))
                 else Inr (text_result (JSON_stringify (JObj
                        [(''success'', JBool True),
                         (''connection'', opt_js (data response)),
                         (''message'', JStr ''Connection patched successfully'')])))))
            (\<lambda>error. text_result (JSON_stringify (JObj
                        [(''error'', JStr (''Failed to patch connection: '' @ js_error.message error)),
                         (''success'', JBool False)]))),
          net'))"

definition alfred_delete_connection ::
  "AlfredClientConfig \<Rightarrow> js network \<Rightarrow> string \<Rightarrow> (js_error + CallToolResult) option \<times> js network" where
  "alfred_delete_connection cfg net connectionId' =
     (let (awaited, net') = deleteConnection cfg net connectionId'
      in (try_catch
            (await awaited (\<lambda>response.
                 if \<not> success response
                 then Inr (text_result (JSON_stringify (JObj
                        [(''error'', js_or (opt_str (AlfredApiResponse.error response))
                                       (JStr ''Failed to delete connection'')),
                         (''success'', JBool False)])))
                 else Inr (text_result (JSON_stringify (JObj
                        [(''success'', JBool True),
                         (''message'', JStr ''Connection deleted successfully''),
                         (''deletedConnection'', opt_js (data response))])))))
            (\<lambda>error. text_result (JSON_stringify (JObj
                        [(''error'', JStr (''Failed to delete connection: '' @ js_error.message error)),
                         (''success'', JBool False)]))),
          net'))"

section \<open>Executions tools (tools/executions.ts)\<close>

text \<open>
  An execution as the remote service sends it. The fields that are optional or nullable
  in types.ts are kept as the JSON values they are: the handlers copy them, or test them
  for truthiness.
\<close>

record Execution =
  id :: string
  skillId :: string
  status :: string
  trigger :: string
  input :: js
  "output" :: js
  trace :: js
  error :: js
  startedAt :: string
  completedAt :: js
  durationMs :: js
  tokenCount :: js
  costUsd :: js
  reportedToCore :: bool

record 'n ListExecutionsInput =
  skillId :: "string option"
  status :: "string option"
  trigger :: "string option"
  startDate :: "string option"
  endDate :: "string option"
  limit :: 'n
  offset :: 'n
  sortBy :: "string option"
  sortOrder :: "string option"

text \<open>\<open>z.string().uuid().optional()\<close> and \<open>z.string().datetime().optional()\<close>: the
  format tests are the schema library's, and are parameters here.\<close>

definition optional_format :: "(string \<Rightarrow> bool) \<Rightarrow> string option \<Rightarrow> bool" where
  "optional_format fmt v = (case v of None \<Rightarrow> True | Some s \<Rightarrow> fmt s)"

definition list_executions_inputSchema ::
  "(string \<Rightarrow> bool) \<Rightarrow> (string \<Rightarrow> bool) \<Rightarrow> int option ListExecutionsInput
     \<Rightarrow> int ListExecutionsInput option" where
  "list_executions_inputSchema uuid datetime raw =
     (if optional_format uuid (ListExecutionsInput.skillId raw)
         \<and> optional_enum [''running'', ''completed'', ''failed''] (ListExecutionsInput.status raw)
         \<and> optional_format datetime (ListExecutionsInput.startDate raw)
         \<and> optional_format datetime (ListExecutionsInput.endDate raw)
         \<and> (case ListExecutionsInput.limit raw of None \<Rightarrow> True | Some n \<Rightarrow> 1 \<le> n \<and> n \<le> 100)
         \<and> (case ListExecutionsInput.offset raw of None \<Rightarrow> True | Some n \<Rightarrow> 0 \<le> n)
         \<and> optional_enum [''asc'', ''desc''] (ListExecutionsInput.sortOrder raw)
      then Some \<lparr>ListExecutionsInput.skillId = ListExecutionsInput.skillId raw,
                 status = ListExecutionsInput.status raw,
                 trigger = ListExecutionsInput.trigger raw,
                 startDate = ListExecutionsInput.startDate raw,
                 endDate = ListExecutionsInput.endDate raw,
                 limit = default 50 (ListExecutionsInput.limit raw),
                 offset = default 0 (ListExecutionsInput.offset raw),
                 sortBy = ListExecutionsInput.sortBy raw,
                 sortOrder = ListExecutionsInput.sortOrder raw\<rparr>
      else None)"

text \<open>\<open>meta?.f || d\<close>\<close>

definition meta_or :: "PaginationMeta option \<Rightarrow> (PaginationMeta \<Rightarrow> js) \<Rightarrow> js \<Rightarrow> js" where
  "meta_or m f d = js_or (case m of None \<Rightarrow> JUndefined | Some t \<Rightarrow> f t) d"

definition alfred_list_executions ::
  "AlfredClientConfig \<Rightarrow> Execution list network \<Rightarrow> int ListExecutionsInput
     \<Rightarrow> (js_error + CallToolResult) option \<times> Execution list network" where
  "alfred_list_executions cfg net params =
     (let (awaited, net') = listExecutions cfg net
              (Some [(''skillId'', opt_str (ListExecutionsInput.skillId params)),
                     (''status'', opt_str (ListExecutionsInput.status params)),
                     (''trigger'', opt_str (ListExecutionsInput.trigger params)),
                     (''startDate'', opt_str (ListExecutionsInput.startDate params)),
                     (''endDate'', opt_str (ListExecutionsInput.endDate params)),
                     (''limit'', JNum (ListExecutionsInput.limit params)),
                     (''offset'', JNum (ListExecutionsInput.offset params)),
                     (''sortBy'', opt_str (ListExecutionsInput.sortBy params)),
                     (''sortOrder'', opt_str (ListExecutionsInput.sortOrder params))])
      in (try_catch
            (await awaited (\<lambda>response.
                 if \<not> success response
                 then Inr (text_result (Text (''Error listing executions: ''
                        @ js_String (js_or (opt_str (AlfredApiResponse.error response))
                                       (opt_str (AlfredApiResponse.message response))))))
                 else (case data response of
                         None \<Rightarrow> Inl (TypeError_undefined ''length'')
                       | Some executions \<Rightarrow>
                           Inr (text_result (JSON_stringify_2 (JObj
                             [(''success'', JBool True),
                              (''count'', JNum (int (length executions))),
                              (''total'', meta_or (meta response) (\<lambda>m. JNum (total m)) (JNum 0)),
                              (''page'', meta_or (meta response) (\<lambda>m. JNum (page m)) (JNum 1)),
                              (''limit'', meta_or (meta response)
                                            (\<lambda>m. JNum (PaginationMeta.limit m)) (JNum 50)),
                              (''totalPages'', meta_or (meta response)
                                                 (\<lambda>m. JNum (totalPages m)) (JNum 0)),
                              (''hasMore'', meta_or (meta response)
                                              (\<lambda>m. JBool (hasMore m)) (JBool False)),
                              (''executions'', JArr (map (\<lambda>e. JObj
                                 [(''id'', JStr (Execution.id e)),
                                  (''skillId'', JStr (Execution.skillId e)),
                                  (''status'', JStr (Execution.status e)),
                                  (''trigger'', JStr (Execution.trigger e)),
                                  (''startedAt'', JStr (startedAt e)),
                                  (''completedAt'', completedAt e),
                                  (''durationMs'', durationMs e),
                                  (''error'', js_or (Execution.error e) JNull)]) executions))]))))))
            (\<lambda>error. text_result (Text (''Failed to list executions: '' @ js_error.message error))),
          net'))"

definition alfred_get_execution ::
  "AlfredClientConfig \<Rightarrow> Execution network \<Rightarrow> string
     \<Rightarrow> (js_error + CallToolResult) option \<times> Execution network" where
  "alfred_get_execution cfg net executionId =
     (let (awaited, net') = getExecution cfg net executionId
      in (try_catch
            (await awaited (\<lambda>response.
                 if \<not> success response
                 then Inr (text_result (Text (''Error getting execution: ''
                        @ js_String (js_or (opt_str (AlfredApiResponse.error response))
                                       (opt_str (AlfredApiResponse.message response))))))
                 else (case data response of
                         None \<Rightarrow> Inl (TypeError_undefined ''id'')
                       | Some execution \<Rightarrow>
                           Inr (text_result (JSON_stringify_2 (JObj
                             [(''success'', JBool True),
                              (''execution'', JObj
                                 [(''id'', JStr (Execution.id execution)),
                                  (''skillId'', JStr (Execution.skillId execution)),
                                  (''status'', JStr (Execution.status execution)),
                                  (''trigger'', JStr (Execution.trigger execution)),
                                  (''input'', Execution.input execution),
                                  (''output'', output execution),
                                  (''error'', Execution.error execution),
                                  (''startedAt'', JStr (startedAt execution)),
                                  (''completedAt'', completedAt execution),
                                  (''durationMs'', durationMs execution),
                                  (''tokenCount'', tokenCount execution),
                                  (''costUsd'', costUsd execution),
                                  (''reportedToCore'', JBool (reportedToCore execution))])]))))))
            (\<lambda>error. text_result (Text (''Failed to get execution: '' @ js_error.message error))),
          net'))"

definition alfred_get_execution_trace ::
  "AlfredClientConfig \<Rightarrow> js network \<Rightarrow> string \<Rightarrow> (js_error + CallToolResult) option \<times> js network" where
  "alfred_get_execution_trace cfg net executionId =
     (let (awaited, net') = getExecutionTrace cfg net executionId
      in (try_catch
            (await awaited (\<lambda>response.
                 if \<not> success response
                 then Inr (text_result (Text (''Error getting execution trace: ''
                        @ js_String (js_or (opt_str (AlfredApiResponse.error response))
                                       (opt_str (AlfredApiResponse.message response))))))
                 else Inr (text_result (JSON_stringify_2 (JObj
                        [(''success'', JBool True),
                         (''executionId'', JStr executionId),
                         (''trace'', opt_js (data response))])))))
            (\<lambda>error. text_result (Text (''Failed to get execution trace: '' @ js_error.message error))),
          net'))"

record ExecutionStats_overview =
  total :: int
  successful :: int
  failed :: int
  running :: int
  successRate :: js
  totalCostUsd :: string
  averageDurationMs :: js

record ExecutionStats_bySkill =
  skillId :: string
  skillName :: string
  count :: int
  successCount :: int
  avgDurationMs :: js
  totalCostUsd :: string

record ExecutionStats_byDay =
  date :: string
  count :: int
  successful :: int
  failed :: int

record ExecutionStats =
  overview :: ExecutionStats_overview
  bySkill :: "ExecutionStats_bySkill list"
  byDay :: "ExecutionStats_byDay list"

definition alfred_get_execution_stats ::
  "AlfredClientConfig \<Rightarrow> ExecutionStats network \<Rightarrow> string option \<Rightarrow> string option \<Rightarrow> string option
     \<Rightarrow> (js_error + CallToolResult) option \<times> ExecutionStats network" where
  "alfred_get_execution_stats cfg net startDate' endDate' skillId' =
     (let (awaited, net') = getExecutionStats cfg net
              (Some [(''startDate'', opt_str startDate'), (''endDate'', opt_str endDate'),
                     (''skillId'', opt_str skillId')])
      in (try_catch
            (await awaited (\<lambda>response.
                 if \<not> success response
                 then Inr (text_result (Text (''Error getting execution stats: ''
                        @ js_String (js_or (opt_str (AlfredApiResponse.error response))
                                       (opt_str (AlfredApiResponse.message response))))))
                 else (case data response of
                         None \<Rightarrow> Inl (TypeError_undefined ''overview'')
                       | Some stats \<Rightarrow>
                           Inr (text_result (JSON_stringify_2 (JObj
                             [(''success'', JBool True),
                              (''stats'', JObj
                                 [(''overview'', JObj
                                     [(''total'', JNum (ExecutionStats_overview.total (overview stats))),
                                      (''successful'',
                                         JNum (ExecutionStats_overview.successful (overview stats))),
                                      (''failed'', JNum (ExecutionStats_overview.failed (overview stats))),
                                      (''running'', JNum (running (overview stats))),
                                      (''successRate'', successRate (overview stats)),
                                      (''totalCostUsd'',
                                         JStr (ExecutionStats_overview.totalCostUsd (overview stats))),
                                      (''averageDurationMs'', averageDurationMs (overview stats))]),
                                  (''bySkill'', JArr (map (\<lambda>skill. JObj
                                     [(''skillId'', JStr (ExecutionStats_bySkill.skillId skill)),
                                      (''skillName'', JStr (skillName skill)),
                                      (''count'', JNum (ExecutionStats_bySkill.count skill)),
                                      (''successCount'', JNum (successCount skill)),
                                      (''avgDurationMs'', avgDurationMs skill),
                                      (''totalCostUsd'',
                                         JStr (ExecutionStats_bySkill.totalCostUsd skill))])
                                     (bySkill stats))),
                                  (''byDay'', JArr (map (\<lambda>day. JObj
                                     [(''date'', JStr (date day)),
                                      (''count'', JNum (ExecutionStats_byDay.count day)),
                                      (''successful'', JNum (ExecutionStats_byDay.successful day)),
                                      (''failed'', JNum (ExecutionStats_byDay.failed day))])
                                     (byDay stats)))])]))))))
            (\<lambda>error. text_result (Text (''Failed to get execution stats: '' @ js_error.message error))),
          net'))"

definition alfred_delete_execution ::
  "AlfredClientConfig \<Rightarrow> Execution network \<Rightarrow> string
     \<Rightarrow> (js_error + CallToolResult) option \<times> Execution network" where
  "alfred_delete_execution cfg net executionId =
     (let (awaited, net') = deleteExecution cfg net executionId
      in (try_catch
            (await awaited (\<lambda>response.
                 if \<not> success response
                 then Inr (text_result (Text (''Error deleting execution: ''
                        @ js_String (js_or (opt_str (AlfredApiResponse.error response))
                                       (opt_str (AlfredApiResponse.message response))))))
                 else (case data response of
                         None \<Rightarrow> Inl (TypeError_undefined ''id'')
                       | Some execution \<Rightarrow>
                           Inr (text_result (JSON_stringify_2 (JObj
                             [(''success'', JBool True),
                              (''message'', JStr (''Execution '' @ executionId
                                                    @ '' deleted successfully'')),
                              (''execution'', JObj
                                 [(''id'', JStr (Execution.id execution)),
                                  (''skillId'', JStr (Execution.skillId execution)),
                                  (''status'', JStr (Execution.status execution)),
                                  (''startedAt'', JStr (startedAt execution)),
                                  (''completedAt'', completedAt execution)])]))))))
            (\<lambda>error. text_result (Text (''Failed to delete execution: '' @ js_error.message error))),
          net'))"

section \<open>Auth tools (tools/auth.ts)\<close>

text \<open>
  An API key as the remote service lists it. The record is extensible, as the interface
  is: whatever else the remote service puts into the object (the full secret, say) is the
  \<open>more\<close> part of the record, which no field selector reads.
\<close>

record ApiKey =
  id :: string
  name :: string
  keyPrefix :: string
  description :: js
  isActive :: bool
  lastUsedAt :: js
  expiresAt :: js
  createdAt :: string
  updatedAt :: string

record CreateApiKeyResponse =
  id :: string
  key :: string
  name :: string
  keyPrefix :: string
  description :: js
  expiresAt :: js
  isActive :: bool
  createdAt :: string
  message :: "string option"

record CreateApiKeyInput =
  name :: string
  description :: "string option"
  expiresAt :: "string option"

definition newline :: string where
  "newline = [CHR 0x0A]"

definition one_time_warning :: string where
  "one_time_warning =
     ''WARNING: This is the only time the API key will be displayed. Save it securely immediately.''"

definition create_api_key_resultText :: "CreateApiKeyResponse \<Rightarrow> string" where
  "create_api_key_resultText apiKey' =
     concat
       [''API Key Created Successfully'', newline,
        newline,
        one_time_warning, newline,
        newline,
        ''Key Details:'', newline,
        ''- ID: '', CreateApiKeyResponse.id apiKey', newline,
        ''- Name: '', CreateApiKeyResponse.name apiKey', newline,
        ''- Key: '', key apiKey', newline,
        ''- Key Prefix: '', CreateApiKeyResponse.keyPrefix apiKey', newline,
        (if truthy (CreateApiKeyResponse.description apiKey')
         then ''- Description: '' @ js_String (CreateApiKeyResponse.description apiKey') else []),
        newline,
        (if truthy (CreateApiKeyResponse.expiresAt apiKey')
         then ''- Expires At: '' @ js_String (CreateApiKeyResponse.expiresAt apiKey')
         else ''- Expires: Never''),
        newline,
        ''- Created At: '', CreateApiKeyResponse.createdAt apiKey', newline,
        ''- Active: '', js_String (JBool (CreateApiKeyResponse.isActive apiKey')), newline,
        newline,
        ''Use this API key in the X-API-Key header when making requests to the Alfred API.'']"

definition alfred_create_api_key ::
  "AlfredClientConfig \<Rightarrow> CreateApiKeyResponse network \<Rightarrow> CreateApiKeyInput
     \<Rightarrow> (js_error + CallToolResult) option \<times> CreateApiKeyResponse network" where
  "alfred_create_api_key cfg net params =
     (let (awaited, net') =
            createApiKey cfg net
              (JObj [(''name'', JStr (CreateApiKeyInput.name params)),
                     (''description'', opt_str (CreateApiKeyInput.description params)),
                     (''expiresAt'', opt_str (CreateApiKeyInput.expiresAt params))])
      in (try_catch
            (await awaited (\<lambda>response.
                 (case (success response, data response) of
                    (True, Some apiKey') \<Rightarrow>
                      Inr (text_result (Text (create_api_key_resultText apiKey')))
                  | _ \<Rightarrow> Inr (text_result (JSON_stringify_2 (JObj
                        [(''error'', js_or (opt_str (AlfredApiResponse.error response))
                                       (JStr ''Failed to create API key'')),
                         (''message'', opt_str (AlfredApiResponse.message response))]))))))
            (\<lambda>error. error_result (JSON_stringify_2 (JObj
                        [(''error'', JStr ''Failed to create API key''),
                         (''details'', JStr (js_error.message error))]))),
          net'))"

text \<open>
  In \<open>alfred_create_api_key\<close> and \<open>alfred_list_api_keys\<close> the failure test is
  \<open>!response.success || !response.data\<close>; \<open>data\<close>, when present, is an object or an array,
  which is truthy, so the success branch is the one with \<open>success\<close> true and \<open>data\<close>
  present.
\<close>

text \<open>One entry of the list that \<open>alfred_list_api_keys\<close> prints, \<open>index\<close> counting from 0.\<close>

definition list_api_keys_entry :: "nat \<Rightarrow> 'z ApiKey_scheme \<Rightarrow> string" where
  "list_api_keys_entry index key' =
     concat
       [Number_toString (int index + 1), ''. '', ApiKey.name key', newline,
        ''   ID: '', ApiKey.id key', newline,
        ''   Prefix: '', ApiKey.keyPrefix key', newline,
        ''   Active: '', js_String (JBool (ApiKey.isActive key')), newline,
        ''   Created: '', ApiKey.createdAt key', newline,
        ''   '', (if truthy (ApiKey.expiresAt key')
                  then ''Expires: '' @ js_String (ApiKey.expiresAt key') else ''Expires: Never''),
        newline,
        ''   '', (if truthy (lastUsedAt key')
                  then ''Last Used: '' @ js_String (lastUsedAt key') else ''Last Used: Never''),
        newline,
        ''   '', (if truthy (ApiKey.description key')
                  then ''Description: '' @ js_String (ApiKey.description key') else [])]"

definition list_api_keys_resultText :: "'z ApiKey_scheme list \<Rightarrow> string" where
  "list_api_keys_resultText apiKeys =
     (let keysText = join (newline @ newline)
                       (map (\<lambda>(index, key'). list_api_keys_entry index key') (enumerate 0 apiKeys))
      in concat
           [''API Keys ('', Number_toString (int (length apiKeys)), '' total)'', newline,
            newline,
            keysText, newline,
            newline,
            ''Note: For security, full API key values are never returned in list operations.'',
            newline,
            ''If you need a new key, use alfred_create_api_key.''])"

definition alfred_list_api_keys ::
  "AlfredClientConfig \<Rightarrow> 'z ApiKey_scheme list network
     \<Rightarrow> (js_error + CallToolResult) option \<times> 'z ApiKey_scheme list network" where
  "alfred_list_api_keys cfg net =
     (let (awaited, net') = listApiKeys cfg net
      in (try_catch
            (await awaited (\<lambda>response.
                 (case (success response, data response) of
                    (True, Some apiKeys) \<Rightarrow>
                      if length apiKeys = 0
                      then Inr (text_result (Text
                             ''No API keys found. Create one using alfred_create_api_key.''))
                      else Inr (text_result (Text (list_api_keys_resultText apiKeys)))
                  | _ \<Rightarrow> Inr (text_result (JSON_stringify_2 (JObj
                        [(''error'', js_or (opt_str (AlfredApiResponse.error response))
                                       (JStr ''Failed to list API keys'')),
                         (''message'', opt_str (AlfredApiResponse.message response))]))))))
            (\<lambda>error. error_result (JSON_stringify_2 (JObj
                        [(''error'', JStr ''Failed to list API keys''),
                         (''details'', JStr (js_error.message error))]))),
          net'))"

definition alfred_delete_api_key ::
  "AlfredClientConfig \<Rightarrow> 'z ApiKey_scheme network \<Rightarrow> string
     \<Rightarrow> (js_error + CallToolResult) option \<times> 'z ApiKey_scheme network" where
  "alfred_delete_api_key cfg net id' =
     (let (awaited, net') = deleteApiKey cfg net id'
      in (try_catch
            (await awaited (\<lambda>response.
                 if \<not> success response
                 then Inr (text_result (JSON_stringify_2 (JObj
                        [(''error'', js_or (opt_str (AlfredApiResponse.error response))
                                       (JStr ''Failed to delete API key'')),
                         (''message'', opt_str (AlfredApiResponse.message response))])))
                 else (case data response of
                         None \<Rightarrow> Inl (TypeError_undefined ''id'')
                       | Some deletedKey \<Rightarrow>
                           Inr (text_result (Text (concat
                             [''API Key Deleted Successfully'', newline,
                              newline,
                              ''Deleted Key:'', newline,
                              ''- ID: '', ApiKey.id deletedKey, newline,
                              ''- Name: '', ApiKey.name deletedKey, newline,
                              ''- Key Prefix: '', ApiKey.keyPrefix deletedKey, newline,
                              newline,
                              ''This API key is now invalid and can no longer be used to authenticate.'',
                              newline,
                              ''Any applications or integrations using this key will lose access.'']))))))
            (\<lambda>error. error_result (JSON_stringify_2 (JObj
                        [(''error'', JStr ''Failed to delete API key''),
                         (''details'', JStr (js_error.message error))]))),
          net'))"

section \<open>Observing a call\<close>

text \<open>
  A client method or a tool handler returns its result and the network after the call.
  \<open>sent\<close> is the request of the last call in the log, \<open>aborted\<close> says whether that call
  was aborted in flight.
\<close>

definition sent :: "'r \<times> 'a network \<Rightarrow> fetch_init" where
  "sent outcome = fst (last (calls (snd outcome)))"

definition aborted :: "'r \<times> 'a network \<Rightarrow> bool" where
  "aborted outcome = snd (last (calls (snd outcome)))"

text \<open>
  The remote service stalls on a request: the headers of its response arrive by the
  deadline, and the body never completes.
\<close>

definition stalled :: "AlfredClientConfig \<Rightarrow> 'a network \<Rightarrow> fetch_init \<Rightarrow> bool" where
  "stalled cfg net init =
     (case respond net init of
        Never \<Rightarrow> False
      | Responds d response \<Rightarrow> d \<le> setTimeout_delay (timeout cfg) \<and> json response = None
      | Rejects d m \<Rightarrow> False)"

text \<open>A remote service that treats every request the same way, with an empty log.\<close>

definition remote :: "'a settles \<Rightarrow> 'a network" where
  "remote s = \<lparr>respond = (\<lambda>init. s), calls = []\<rparr>"

section \<open>Example inputs\<close>

definition local_config :: AlfredClientConfig where
  "local_config = \<lparr>apiKey = ''alf_test'', baseUrl = ''http://localhost:3001/api/v1'', timeout = 30000\<rparr>"

definition impatient_config :: AlfredClientConfig where
  "impatient_config = \<lparr>apiKey = ''alf_test'', baseUrl = ''http://localhost:3001/api/v1'', timeout = 1\<rparr>"

definition envelope :: "bool \<Rightarrow> 'a option \<Rightarrow> string option \<Rightarrow> string option \<Rightarrow> 'a AlfredApiResponse" where
  "envelope s d e m = \<lparr>success = s, data = d, error = e, message = m, meta = None\<rparr>"

text \<open>A remote service that answers after 5 ms, with a body that completes.\<close>

definition answers :: "int \<Rightarrow> string \<Rightarrow> string + 'a AlfredApiResponse \<Rightarrow> 'a network" where
  "answers code reason parsed =
     remote (Responds 5 \<lparr>Response.status = code, statusText = reason, json = Some parsed\<rparr>)"

text \<open>A remote service that sends the status line and the headers after 5 ms, and then
  nothing more.\<close>

definition stalls_after_headers :: "int \<Rightarrow> string \<Rightarrow> 'a network" where
  "stalls_after_headers code reason =
     remote (Responds 5 \<lparr>Response.status = code, statusText = reason, json = None\<rparr>)"

definition no_skill_filters :: "'n \<Rightarrow> 'n \<Rightarrow> 'n ListSkillsInput" where
  "no_skill_filters l off =
     \<lparr>ListSkillsInput.isActive = None, triggerType = None, isSystem = None,
      limit = l, offset = off, sortBy = None, sortOrder = None\<rparr>"

definition no_connection_filters :: "'n \<Rightarrow> 'n \<Rightarrow> 'n ListConnectionsInput" where
  "no_connection_filters l off =
     \<lparr>ListConnectionsInput.isActive = None, type = None, source = None, authStatus = None,
      limit = l, offset = off, sortBy = None, sortOrder = None\<rparr>"

definition no_execution_filters :: "'n \<Rightarrow> 'n \<Rightarrow> 'n ListExecutionsInput" where
  "no_execution_filters l off =
     \<lparr>ListExecutionsInput.skillId = None, status = None, trigger = None, startDate = None,
      endDate = None, limit = l, offset = off, sortBy = None, sortOrder = None\<rparr>"

definition any_format :: "string \<Rightarrow> bool" where
  "any_format s = True"



section \<open>The public part of a list of API keys\<close>

text \<open>
  What the remote service's answer to \<open>GET /auth/keys\<close> says apart from the content that
  the key objects carry beyond the fields of \<open>ApiKey\<close>: the same answer, every key cut down
  to those fields. Two answers with the same public part differ at most in that extra
  content, the place where a full secret would be.
\<close>

definition public_envelope ::
  "'z ApiKey_scheme list AlfredApiResponse \<Rightarrow> ApiKey list AlfredApiResponse" where
  "public_envelope response =
     \<lparr>success = success response,
      data = map_option (map ApiKey.truncate) (data response),
      error = AlfredApiResponse.error response,
      message = AlfredApiResponse.message response,
      meta = meta response\<rparr>"

definition public_response :: "'z ApiKey_scheme list Response \<Rightarrow> ApiKey list Response" where
  "public_response response =
     \<lparr>Response.status = Response.status response, statusText = statusText response,
      json = map_option (\<lambda>parsed. case parsed of Inl m \<Rightarrow> Inl m | Inr e \<Rightarrow> Inr (public_envelope e))
               (json response)\<rparr>"


section \<open>Properties\<close>

subsection \<open>The request operation, case by case\<close>

lemma name_simps [simp]:
  "js_error.name AbortError = ''AbortError''" "js_error.name (SyntaxError m) = ''SyntaxError''"
  "js_error.name (FetchError m) = ''FetchError''" "js_error.name (new_Error v) = ''Error''"
  by (simp_all add: AbortError_def SyntaxError_def FetchError_def new_Error_def)

lemma request_calls:
  "\<exists>ab. calls (snd (request cfg net m p b)) =
     calls net @ [(\<lparr>url = baseUrl cfg @ p, method = m,
                     headers = [(''X-API-Key'', apiKey cfg), (''Content-Type'', ''application/json'')],
                     body = (if truthy b then Some b else None)\<rparr>, ab)]"
  by (auto simp: request_def fetch_def Let_def split: settles.splits prod.splits sum.splits)

lemma sent_request:
  "sent (request cfg net m p b) =
     \<lparr>url = baseUrl cfg @ p, method = m,
      headers = [(''X-API-Key'', apiKey cfg), (''Content-Type'', ''application/json'')],
      body = (if truthy b then Some b else None)\<rparr>"
  using request_calls[of cfg net m p b] by (auto simp: sent_def)

lemma request_Never:
  assumes "respond net (sent (request cfg net m p b)) = Never"
  shows "fst (request cfg net m p b) =
           Some (Inl (new_Error (JStr (''Request timeout after '' @ Number_toString (timeout cfg) @ ''ms''))))"
    and "aborted (request cfg net m p b)"
  using assms unfolding sent_request
  by (simp_all add: request_def fetch_def Let_def aborted_def)

lemma request_Responds:
  assumes "respond net (sent (request cfg net m p b)) = Responds d r"
  shows "fst (request cfg net m p b) =
     (if d \<le> setTimeout_delay (timeout cfg)
      then (case json r of
              None \<Rightarrow> None
            | Some (Inl msg) \<Rightarrow> Some (Inl (SyntaxError msg))
            | Some (Inr env) \<Rightarrow>
                if ok r then Some (Inr env)
                else Some (Inl (new_Error (js_or (opt_str (AlfredApiResponse.error env))
                            (js_or (opt_str (AlfredApiResponse.message env))
                               (JStr (''HTTP '' @ Number_toString (Response.status r) @ '': '' @ statusText r)))))))
      else Some (Inl (new_Error (JStr (''Request timeout after '' @ Number_toString (timeout cfg) @ ''ms'')))))"
    and "aborted (request cfg net m p b) = (\<not> d \<le> setTimeout_delay (timeout cfg))"
  using assms unfolding sent_request
  by (simp_all add: request_def fetch_def Let_def aborted_def split: sum.splits option.splits)

lemma request_Rejects:
  assumes "respond net (sent (request cfg net m p b)) = Rejects d msg"
  shows "fst (request cfg net m p b) =
     (if d \<le> setTimeout_delay (timeout cfg) then Some (Inl (FetchError msg))
      else Some (Inl (new_Error (JStr (''Request timeout after '' @ Number_toString (timeout cfg) @ ''ms'')))))"
    and "aborted (request cfg net m p b) = (\<not> d \<le> setTimeout_delay (timeout cfg))"
  using assms unfolding sent_request
  by (simp_all add: request_def fetch_def Let_def aborted_def)

lemma new_Error_JStr: "new_Error (JStr s) = \<lparr>js_error.name = ''Error'', message = s\<rparr>"
  by (simp add: new_Error_def)

lemma js_or_strings:
  "js_or (opt_str a) (js_or (opt_str b) (JStr c)) =
     JStr (if a \<notin> {None, Some []} then the a else if b \<notin> {None, Some []} then the b else c)"
  by (cases a; cases b) (auto simp: js_or_def opt_str_def)

lemma api_error_message_aux:
  assumes "respond net (sent (request cfg net m p b)) = Responds d r"
    and "d \<le> setTimeout_delay (timeout cfg)"
    and "\<not> ok r"
    and "json r = Some (Inr env)"
  shows "fst (request cfg net m p b) =
           Some (Inl \<lparr>js_error.name = ''Error'',
                message =
                  (if AlfredApiResponse.error env \<notin> {None, Some []}
                   then the (AlfredApiResponse.error env)
                   else if AlfredApiResponse.message env \<notin> {None, Some []}
                   then the (AlfredApiResponse.message env)
                   else ''HTTP '' @ Number_toString (Response.status r) @ '': '' @ statusText r)\<rparr>)"
  unfolding request_Responds(1)[OF assms(1)] using assms(2-4)
  by (simp add: js_or_strings new_Error_JStr)

lemma sent_remote [simp]: "respond (remote s) init = s"
  by (simp add: remote_def)

lemma digits_simps [simp]: "digits (numeral k) = (if numeral k < (10::nat) then [digit_char (numeral k)] else digits (numeral k div 10) @ [digit_char (numeral k mod 10)])"
  by (simp only: digits.simps[of "numeral k"])

declare digits.simps [simp del]

lemma digits_small [simp]: "digits 0 = ''0''" "digits (Suc 0) = ''1''"
  by (simp_all add: digits.simps digit_char_def)

lemma digit_char_small [simp]: "digit_char 0 = CHR ''0''" "digit_char (Suc 0) = CHR ''1''"
  by (simp_all add: digit_char_def)

lemma digit_char_numeral [simp]: "digit_char (numeral k) = ''0123456789'' ! (numeral k mod 10)"
  by (simp add: digit_char_def)


lemma sent_bind: "sent (case f of (a, n) \<Rightarrow> (g a, n)) = sent f"
  by (simp add: sent_def split: prod.splits)

lemma fst_bind: "fst (case f of (a, n) \<Rightarrow> (g a, n)) = g (fst f)"
  by (simp split: prod.splits)

lemma request_remote:
  "fst (request cfg (remote s) m p b) =
     (case s of
        Never \<Rightarrow>
          Some (Inl (new_Error (JStr (''Request timeout after '' @ Number_toString (timeout cfg) @ ''ms''))))
      | Responds d r \<Rightarrow>
          if d \<le> setTimeout_delay (timeout cfg)
          then (case json r of
                  None \<Rightarrow> None
                | Some (Inl msg) \<Rightarrow> Some (Inl (SyntaxError msg))
                | Some (Inr env) \<Rightarrow>
                    if ok r then Some (Inr env)
                    else Some (Inl (new_Error (js_or (opt_str (AlfredApiResponse.error env))
                            (js_or (opt_str (AlfredApiResponse.message env))
                               (JStr (''HTTP '' @ Number_toString (Response.status r) @ '': '' @ statusText r)))))))
          else Some (Inl (new_Error (JStr (''Request timeout after '' @ Number_toString (timeout cfg) @ ''ms''))))
      | Rejects d msg \<Rightarrow>
          if d \<le> setTimeout_delay (timeout cfg) then Some (Inl (FetchError msg))
          else Some (Inl (new_Error (JStr (''Request timeout after '' @ Number_toString (timeout cfg) @ ''ms'')))))"
  by (cases s) (simp_all add: request_Never request_Responds request_Rejects)

lemma await_simps [simp]:
  "await None k = None" "await (Some (Inl e)) k = Some (Inl e)" "await (Some (Inr x)) k = Some (k x)"
  by (simp_all add: await_def)

lemma try_catch_simps [simp]:
  "try_catch None h = None" "try_catch (Some (Inl e)) h = Some (Inr (h e))"
  "try_catch (Some (Inr r)) h = Some (Inr r)"
  by (simp_all add: try_catch_def)

subsection \<open>Envelope pass-through\<close>



subsection \<open>The message of an API error\<close>

text \<open>
  Claim C2, as amended. When the remote service answers with a non-2xx status and a body
  that parses as the JSON envelope, \<open>request\<close> fails with an \<open>Error\<close> whose message is the
  envelope's \<open>error\<close> when that is present and not empty, else the envelope's \<open>message\<close>
  when that is present and not empty, else \<open>HTTP <status>: <statusText>\<close>.
\<close>

theorem api_error_message:
  assumes "respond net (sent (request cfg net m p b)) = Responds d r"
    and "d \<le> setTimeout_delay (timeout cfg)"
    and "\<not> ok r"
    and "json r = Some (Inr env)"
  shows "fst (request cfg net m p b) =
           Some (Inl \<lparr>js_error.name = ''Error'',
                message =
                  (if AlfredApiResponse.error env \<notin> {None, Some []}
                   then the (AlfredApiResponse.error env)
                   else if AlfredApiResponse.message env \<notin> {None, Some []}
                   then the (AlfredApiResponse.message env)
                   else ''HTTP '' @ Number_toString (Response.status r) @ '': '' @ statusText r)\<rparr>)"
  using assms by (rule api_error_message_aux)

theorem api_error_message_witness:
  "fst (request local_config (answers 404 ''Not Found'' (Inr (envelope False (None :: js option) (Some ''not found'') None)))
          ''GET'' ''/skills/abc'' JUndefined)
     = Some (Inl \<lparr>js_error.name = ''Error'', message = ''not found''\<rparr>)
   \<and> fst (request local_config (answers 404 ''Not Found'' (Inr (envelope False (None :: js option) None None)))
          ''GET'' ''/skills/abc'' JUndefined)
     = Some (Inl \<lparr>js_error.name = ''Error'', message = ''HTTP 404: Not Found''\<rparr>)"
  using api_error_message[of "answers 404 ''Not Found'' (Inr (envelope False (None :: js option) (Some ''not found'') None))"
      local_config "''GET''" "''/skills/abc''" JUndefined 5
      "\<lparr>Response.status = 404, statusText = ''Not Found'', json = Some (Inr (envelope False (None :: js option) (Some ''not found'') None))\<rparr>"
      "envelope False (None :: js option) (Some ''not found'') None"]
    api_error_message[of "answers 404 ''Not Found'' (Inr (envelope False (None :: js option) None None))"
      local_config "''GET''" "''/skills/abc''" JUndefined 5
      "\<lparr>Response.status = 404, statusText = ''Not Found'', json = Some (Inr (envelope False (None :: js option) None None))\<rparr>"
      "envelope False (None :: js option) None None"]
  by (simp add: answers_def local_config_def setTimeout_delay_def ok_def envelope_def Number_toString_def Number_magnitude_def)

text \<open>
  The claim as it was stated fails twice. A 502 whose body is an HTML page fails with the
  parser's \<open>SyntaxError\<close>, which is none of the three messages; and an envelope whose
  \<open>error\<close> is present but empty yields the \<open>message\<close> field, \<open>||\<close> testing truthiness and
  not presence.
\<close>

theorem api_error_message_counterexample:
  "fst (request local_config (answers 502 ''Bad Gateway'' (Inl ''Unexpected token < in JSON at position 0'')
                               :: js network)
          ''GET'' ''/skills'' JUndefined)
     = Some (Inl \<lparr>js_error.name = ''SyntaxError'', message = ''Unexpected token < in JSON at position 0''\<rparr>)
   \<and> fst (request local_config
            (answers 500 ''Internal Server Error''
               (Inr (envelope False (None :: js option) (Some []) (Some ''boom''))))
            ''GET'' ''/skills'' JUndefined)
     = Some (Inl \<lparr>js_error.name = ''Error'', message = ''boom''\<rparr>)"
  by (simp add: request_Responds(1) answers_def local_config_def setTimeout_delay_def ok_def
        envelope_def SyntaxError_def new_Error_def js_or_def opt_str_def)

subsection \<open>Timeout\<close>

text \<open>
  As long as the headers have not arrived, the deadline holds: for a positive timeout
  \<open>t\<close>, a call that the remote service never settles, or settles later than \<open>t\<close>
  milliseconds, is aborted and fails with \<open>Request timeout after <t>ms\<close>.
\<close>

lemma late_headers_time_out:
  assumes "0 < timeout cfg"
    and "respond net (sent (request cfg net m p b)) = Never
         \<or> (\<exists>d r. respond net (sent (request cfg net m p b)) = Responds d r \<and> timeout cfg < int d)
         \<or> (\<exists>d e. respond net (sent (request cfg net m p b)) = Rejects d e \<and> timeout cfg < int d)"
  shows "fst (request cfg net m p b) =
           Some (Inl \<lparr>js_error.name = ''Error'',
                message = ''Request timeout after '' @ Number_toString (timeout cfg) @ ''ms''\<rparr>)
         \<and> aborted (request cfg net m p b)"
proof -
  have late: "\<not> d \<le> setTimeout_delay (timeout cfg)" if "timeout cfg < int d" for d
    using that assms(1) by (auto simp: setTimeout_delay_def)
  from assms(2) show ?thesis
  proof (elim disjE exE conjE)
    assume "respond net (sent (request cfg net m p b)) = Never"
    then show ?thesis by (simp add: request_Never new_Error_JStr)
  next
    fix d r assume "respond net (sent (request cfg net m p b)) = Responds d r" "timeout cfg < int d"
    then show ?thesis by (simp add: request_Responds late new_Error_JStr)
  next
    fix d e assume "respond net (sent (request cfg net m p b)) = Rejects d e" "timeout cfg < int d"
    then show ?thesis by (simp add: request_Rejects late new_Error_JStr)
  qed
qed

text \<open>
  Once the headers are in, nothing bounds the call: when the remote service stalls, the
  call never returns and is never aborted, whatever the timeout.
\<close>

lemma stalled_request:
  assumes "stalled cfg net (sent (request cfg net m p b))"
  shows "fst (request cfg net m p b) = None" and "\<not> aborted (request cfg net m p b)"
proof -
  from assms obtain d r where r: "respond net (sent (request cfg net m p b)) = Responds d r"
    and d: "d \<le> setTimeout_delay (timeout cfg)" and j: "json r = None"
    by (auto simp: stalled_def split: settles.splits)
  from d j show "fst (request cfg net m p b) = None" by (simp add: request_Responds(1)[OF r])
  from d show "\<not> aborted (request cfg net m p b)" by (simp add: request_Responds(2)[OF r])
qed

text \<open>
  Claim C3 says that every call on which no response arrives within the configured
  timeout is aborted and fails with a Timeout error. The client does not do that on the
  following input: the timeout is 30000 ms, the remote service sends the status line and
  the headers after 5 ms and never completes the body. \<open>clearTimeout\<close> has run by then, so
  the request is not aborted, and \<open>request\<close> stays pending: it neither returns nor fails
  with a Timeout error.
\<close>

theorem stalled_body_never_times_out:
  "fst (request local_config (stalls_after_headers 200 ''OK'' :: js network)
          ''GET'' ''/skills'' JUndefined) = None
   \<and> \<not> aborted (request local_config (stalls_after_headers 200 ''OK'' :: js network)
                    ''GET'' ''/skills'' JUndefined)"
proof -
  have "stalled local_config (stalls_after_headers 200 ''OK'' :: js network) init" for init
    by (simp add: stalled_def stalls_after_headers_def local_config_def setTimeout_delay_def)
  then show ?thesis using stalled_request by blast
qed

subsection \<open>Headers\<close>

text \<open>
  Claim C7, as amended. Every outbound request carries the API-key header and the JSON
  content-type header, whether it has a body or not; the body is the serialised value
  when the value is truthy, and absent otherwise.
\<close>

theorem request_headers:
  "headers (sent (request cfg net m p b)) =
     [(''X-API-Key'', apiKey cfg), (''Content-Type'', ''application/json'')]
   \<and> body (sent (request cfg net m p b)) = (if truthy b then Some b else None)"
  by (simp add: sent_request)

theorem request_headers_witness:
  "headers (sent (request local_config (remote Never :: js network) ''POST'' ''/skills''
                    (JObj [(''name'', JStr ''daily digest'')])))
     = [(''X-API-Key'', ''alf_test''), (''Content-Type'', ''application/json'')]
   \<and> body (sent (request local_config (remote Never :: js network) ''POST'' ''/skills''
                    (JObj [(''name'', JStr ''daily digest'')])))
     = Some (JObj [(''name'', JStr ''daily digest'')])"
  using request_headers[of local_config "remote Never :: js network" "''POST''" "''/skills''"
      "JObj [(''name'', JStr ''daily digest'')]"]
  by (simp add: local_config_def)

text \<open>
  The claim as it was stated fails on every request that has no body: a \<open>GET\<close> carries the
  content-type header all the same.
\<close>

theorem content_type_without_body:
  "body (sent (request local_config (remote Never :: js network) ''GET'' ''/skills'' JUndefined)) = None
   \<and> map_of (headers (sent (request local_config (remote Never :: js network) ''GET'' ''/skills'' JUndefined)))
        ''Content-Type'' = Some ''application/json''"
  by (simp add: sent_request)

subsection \<open>Parsing comes before the status\<close>

text \<open>
  Claim C10, as amended. \<open>request\<close> parses the body before it looks at the status. For a
  non-2xx response whose body is not JSON the call fails with the parser's error. The
  call fails with \<open>HTTP <status>: <statusText>\<close> when the body parses and the envelope's
  \<open>error\<close> and \<open>message\<close> are each absent or empty, and only then, but for an envelope
  that carries that very text as its \<open>error\<close> or \<open>message\<close>.
\<close>

theorem parse_before_status:
  assumes "respond net (sent (request cfg net m p b)) = Responds d r"
    and "d \<le> setTimeout_delay (timeout cfg)"
    and "\<not> ok r"
  shows "(\<forall>msg. json r = Some (Inl msg) \<longrightarrow>
            fst (request cfg net m p b) = Some (Inl \<lparr>js_error.name = ''SyntaxError'', message = msg\<rparr>))
       \<and> (\<forall>env. json r = Some (Inr env)
              \<and> AlfredApiResponse.error env \<in> {None, Some []}
              \<and> AlfredApiResponse.message env \<in> {None, Some []} \<longrightarrow>
            fst (request cfg net m p b) =
              Some (Inl \<lparr>js_error.name = ''Error'',
                   message = ''HTTP '' @ Number_toString (Response.status r) @ '': '' @ statusText r\<rparr>))
       \<and> (fst (request cfg net m p b) =
              Some (Inl \<lparr>js_error.name = ''Error'',
                   message = ''HTTP '' @ Number_toString (Response.status r) @ '': '' @ statusText r\<rparr>) \<longrightarrow>
            (\<exists>env. json r = Some (Inr env)
               \<and> (AlfredApiResponse.error env \<in> {None, Some []}
                     \<and> AlfredApiResponse.message env \<in> {None, Some []}
                   \<or> ''HTTP '' @ Number_toString (Response.status r) @ '': '' @ statusText r
                       \<in> {the (AlfredApiResponse.error env), the (AlfredApiResponse.message env)})))"
proof -
  let ?synth = "''HTTP '' @ Number_toString (Response.status r) @ '': '' @ statusText r"
  have parse: "fst (request cfg net m p b) = Some (Inl \<lparr>js_error.name = ''SyntaxError'', message = msg\<rparr>)"
    if "json r = Some (Inl msg)" for msg
    using that assms by (simp add: request_Responds(1) SyntaxError_def)
  have chosen: "fst (request cfg net m p b) =
      Some (Inl \<lparr>js_error.name = ''Error'',
           message = (if AlfredApiResponse.error env \<notin> {None, Some []}
                      then the (AlfredApiResponse.error env)
                      else if AlfredApiResponse.message env \<notin> {None, Some []}
                      then the (AlfredApiResponse.message env) else ?synth)\<rparr>)"
    if "json r = Some (Inr env)" for env
    using api_error_message_aux[OF assms(1,2,3) that] .
  have synth: "fst (request cfg net m p b) = Some (Inl \<lparr>js_error.name = ''Error'', message = ?synth\<rparr>)"
    if "json r = Some (Inr env) \<and> AlfredApiResponse.error env \<in> {None, Some []}
              \<and> AlfredApiResponse.message env \<in> {None, Some []}" for env
  proof -
    from that have j: "json r = Some (Inr env)" and e: "AlfredApiResponse.error env \<in> {None, Some []}"
      and m: "AlfredApiResponse.message env \<in> {None, Some []}" by blast+
    show ?thesis unfolding chosen[OF j] using e m by simp
  qed
  have only: "\<exists>env. json r = Some (Inr env)
               \<and> (AlfredApiResponse.error env \<in> {None, Some []}
                     \<and> AlfredApiResponse.message env \<in> {None, Some []}
                   \<or> ?synth \<in> {the (AlfredApiResponse.error env), the (AlfredApiResponse.message env)})"
    if a: "fst (request cfg net m p b) = Some (Inl \<lparr>js_error.name = ''Error'', message = ?synth\<rparr>)"
  proof (cases "json r")
    case None
    with assms have "fst (request cfg net m p b) = None" by (simp add: request_Responds(1))
    with a show ?thesis by simp
  next
    case (Some parsed)
    show ?thesis
    proof (cases parsed)
      case (Inl msg)
      with Some have "json r = Some (Inl msg)" by simp
      from parse[OF this] a have False by simp
      then show ?thesis ..
    next
      case (Inr env)
      with Some have j: "json r = Some (Inr env)" by simp
      note c = chosen[OF j]
      show ?thesis
      proof (cases "AlfredApiResponse.error env \<in> {None, Some []}")
        case e: True
        show ?thesis
        proof (cases "AlfredApiResponse.message env \<in> {None, Some []}")
          case True
          with e j show ?thesis by blast
        next
          case False
          with e c a have "the (AlfredApiResponse.message env) = ?synth" by simp
          then have "?synth \<in> {the (AlfredApiResponse.error env), the (AlfredApiResponse.message env)}"
            by simp
          with j show ?thesis by blast
        qed
      next
        case False
        with c a have "the (AlfredApiResponse.error env) = ?synth" by simp
        then have "?synth \<in> {the (AlfredApiResponse.error env), the (AlfredApiResponse.message env)}"
          by simp
        with j show ?thesis by blast
      qed
    qed
  qed
  from parse synth only show ?thesis by blast
qed


theorem parse_before_status_witness:
  "fst (request local_config
          (answers 502 ''Bad Gateway'' (Inl ''Unexpected token < in JSON at position 0'') :: js network)
          ''GET'' ''/skills'' JUndefined)
     = Some (Inl \<lparr>js_error.name = ''SyntaxError'', message = ''Unexpected token < in JSON at position 0''\<rparr>)
   \<and> fst (request local_config
            (answers 404 ''Not Found'' (Inr (envelope False (None :: js option) None None)))
            ''GET'' ''/skills/abc'' JUndefined)
     = Some (Inl \<lparr>js_error.name = ''Error'', message = ''HTTP 404: Not Found''\<rparr>)"
proof -
  let ?html = "answers 502 ''Bad Gateway'' (Inl ''Unexpected token < in JSON at position 0'') :: js network"
  let ?r1 = "\<lparr>Response.status = 502, statusText = ''Bad Gateway'',
              json = Some (Inl ''Unexpected token < in JSON at position 0''
                           :: string + js AlfredApiResponse)\<rparr>"
  let ?env = "envelope False (None :: js option) None None"
  let ?bare = "answers 404 ''Not Found'' (Inr ?env)"
  let ?r2 = "\<lparr>Response.status = 404, statusText = ''Not Found'', json = Some (Inr ?env)\<rparr>"
  have h1: "respond ?html i = Responds 5 ?r1" "\<not> ok ?r1"
    and h2: "respond ?bare i = Responds 5 ?r2" "\<not> ok ?r2" "json ?r2 = Some (Inr ?env)"
      "AlfredApiResponse.error ?env \<in> {None, Some []}" "AlfredApiResponse.message ?env \<in> {None, Some []}"
    and d: "5 \<le> setTimeout_delay (timeout local_config)" for i
    by (simp_all add: answers_def ok_def envelope_def local_config_def setTimeout_delay_def)
  have A: "fst (request local_config ?html ''GET'' ''/skills'' JUndefined)
     = Some (Inl \<lparr>js_error.name = ''SyntaxError'', message = ''Unexpected token < in JSON at position 0''\<rparr>)"
    using parse_before_status[of ?html local_config "''GET''" "''/skills''" JUndefined 5 ?r1, OF h1(1) d h1(2)]
    by simp
  have B: "fst (request local_config ?bare ''GET'' ''/skills/abc'' JUndefined)
     = Some (Inl \<lparr>js_error.name = ''Error'',
            message = ''HTTP '' @ Number_toString (Response.status ?r2) @ '': '' @ statusText ?r2\<rparr>)"
    using parse_before_status[of ?bare local_config "''GET''" "''/skills/abc''" JUndefined 5 ?r2, OF h2(1) d h2(2)]
      h2(3,4,5) by blast
  from A B show ?thesis by (simp add: Number_toString_def Number_magnitude_def)
qed

text \<open>
  The claim as it was stated fails on an envelope whose \<open>error\<close> field is present but
  empty: the synthesized message is produced although the envelope carries an \<open>error\<close>
  field.
\<close>

theorem parse_before_status_counterexample:
  "fst (request local_config
          (answers 500 ''Internal Server Error'' (Inr (envelope False (None :: js option) (Some []) None)))
          ''GET'' ''/skills'' JUndefined)
     = Some (Inl \<lparr>js_error.name = ''Error'', message = ''HTTP 500: Internal Server Error''\<rparr>)
   \<and> AlfredApiResponse.error (envelope False (None :: js option) (Some []) None) = Some []"
  by (simp add: request_remote answers_def local_config_def setTimeout_delay_def ok_def
        envelope_def new_Error_def js_or_def opt_str_def Number_toString_def Number_magnitude_def)

subsection \<open>Query strings of the list operations\<close>

lemma build_query_foldl:
  "foldl (\<lambda>query (key, value).
            if value \<noteq> JUndefined then query_append query key (js_String value) else query)
         acc entries
   = acc @ map (\<lambda>(key, value). (key, js_String value))
             (filter (\<lambda>(key, value). value \<noteq> JUndefined) entries)"
  by (induction entries arbitrary: acc) (auto simp: query_append_def)

lemma build_query_Some:
  "build_query (Some entries) =
     map (\<lambda>(key, value). (key, js_String value))
       (filter (\<lambda>(key, value). value \<noteq> JUndefined) entries)"
  by (simp add: build_query_def build_query_foldl)

lemma filter_key_build_query:
  "filter (\<lambda>param. fst param = k) (build_query (Some entries)) =
     map (\<lambda>(key, value). (key, js_String value))
       (filter (\<lambda>(key, value). value \<noteq> JUndefined) (filter (\<lambda>entry. fst entry = k) entries))"
  unfolding build_query_Some by (induction entries) auto

lemma filter_key_distinct:
  "distinct (map fst entries) \<Longrightarrow> (k, v) \<in> set entries \<Longrightarrow>
     filter (\<lambda>entry. fst entry = k) entries = [(k, v)]"
proof (induction entries)
  case Nil
  then show ?case by simp
next
  case (Cons e es)
  show ?case
  proof (cases "fst e = k")
    case True
    with Cons.prems have "e = (k, v)" by (cases e) (auto simp: image_iff)
    moreover from Cons.prems True have "filter (\<lambda>entry. fst entry = k) es = []"
      by (auto simp: filter_empty_conv image_iff)
    ultimately show ?thesis by simp
  next
    case False
    with Cons show ?thesis by auto
  qed
qed

lemma url_sent_request: "url (sent (request cfg net m p b)) = baseUrl cfg @ p"
  by (simp add: sent_request)

lemma urlencode_plain [simp]:
  "urlencode [] = []"
  "urlencode (c # cs) = urlencode_byte c @ urlencode cs"
  by (simp_all add: urlencode_def)

text \<open>
  Claim C5. For each of \<open>listSkills\<close>, \<open>listConnections\<close>, \<open>listExecutions\<close> and
  \<open>getExecutionStats\<close> and every filter object (its keys are distinct, as the keys of an
  object are), the request goes to the operation's path followed by the serialised query,
  and the query has exactly one parameter, the value converted with \<open>String\<close>, for each
  field whose value is defined, and no parameter for a field that is undefined or absent.
\<close>

theorem list_query_parameters:
  assumes "distinct (map fst entries)"
  shows "url (sent (listSkills cfg net1 (Some entries)))
           = baseUrl cfg @ ''/skills'' @ query_suffix (toString (build_query (Some entries)))
       \<and> url (sent (listConnections cfg net2 (Some entries)))
           = baseUrl cfg @ ''/connections'' @ query_suffix (toString (build_query (Some entries)))
       \<and> url (sent (listExecutions cfg net3 (Some entries)))
           = baseUrl cfg @ ''/executions'' @ query_suffix (toString (build_query (Some entries)))
       \<and> url (sent (getExecutionStats cfg net4 (Some entries)))
           = baseUrl cfg @ ''/executions/stats'' @ query_suffix (toString (build_query (Some entries)))
       \<and> (\<forall>key value. (key, value) \<in> set entries \<and> value \<noteq> JUndefined \<longrightarrow>
             filter (\<lambda>param. fst param = key) (build_query (Some entries)) = [(key, js_String value)])
       \<and> (\<forall>key. (\<forall>value. (key, value) \<in> set entries \<longrightarrow> value = JUndefined) \<longrightarrow>
             filter (\<lambda>param. fst param = key) (build_query (Some entries)) = [])"
proof (intro conjI allI impI)
  fix k v
  assume "(k, v) \<in> set entries \<and> v \<noteq> JUndefined"
  then show "filter (\<lambda>param. fst param = k) (build_query (Some entries)) = [(k, js_String v)]"
    using filter_key_distinct[OF assms, of k v] by (simp add: filter_key_build_query)
next
  fix k
  assume "\<forall>v. (k, v) \<in> set entries \<longrightarrow> v = JUndefined"
  then show "filter (\<lambda>param. fst param = k) (build_query (Some entries)) = []"
    by (auto simp: filter_key_build_query filter_empty_conv)
qed (simp_all add: listSkills_def listConnections_def listExecutions_def getExecutionStats_def
       Let_def url_sent_request)

theorem list_query_parameters_witness:
  "url (sent (listSkills local_config (remote Never :: js network)
                (Some [(''isActive'', JBool True), (''triggerType'', JUndefined), (''limit'', JNum 10)])))
     = ''http://localhost:3001/api/v1/skills?isActive=true&limit=10''
   \<and> filter (\<lambda>param. fst param = ''limit'')
        (build_query (Some [(''isActive'', JBool True), (''triggerType'', JUndefined), (''limit'', JNum 10)]))
     = [(''limit'', ''10'')]
   \<and> filter (\<lambda>param. fst param = ''triggerType'')
        (build_query (Some [(''isActive'', JBool True), (''triggerType'', JUndefined), (''limit'', JNum 10)]))
     = []"
proof -
  let ?entries = "[(''isActive'', JBool True), (''triggerType'', JUndefined), (''limit'', JNum 10)]"
  let ?net = "remote Never :: js network"
  have d: "distinct (map fst ?entries)" by simp
  note t = list_query_parameters[OF d, of local_config ?net ?net ?net ?net]
  from t have A: "url (sent (listSkills local_config ?net (Some ?entries)))
           = baseUrl local_config @ ''/skills'' @ query_suffix (toString (build_query (Some ?entries)))"
    by blast
  from t have "(''limit'', JNum 10) \<in> set ?entries \<and> JNum 10 \<noteq> JUndefined \<longrightarrow>
      filter (\<lambda>param. fst param = ''limit'') (build_query (Some ?entries)) = [(''limit'', js_String (JNum 10))]"
    by blast
  then have B: "filter (\<lambda>param. fst param = ''limit'') (build_query (Some ?entries)) = [(''limit'', ''10'')]"
    by (simp add: Number_toString_def Number_magnitude_def)
  from t have "(\<forall>v. (''triggerType'', v) \<in> set ?entries \<longrightarrow> v = JUndefined) \<longrightarrow>
      filter (\<lambda>param. fst param = ''triggerType'') (build_query (Some ?entries)) = []"
    by blast
  then have C: "filter (\<lambda>param. fst param = ''triggerType'') (build_query (Some ?entries)) = []"
    by simp
  have "toString (build_query (Some ?entries)) = ''isActive=true&limit=10''"
    by (simp add: build_query_Some toString_def urlencode_byte_def Number_toString_def Number_magnitude_def)
  with A have "url (sent (listSkills local_config ?net (Some ?entries)))
     = ''http://localhost:3001/api/v1/skills?isActive=true&limit=10''"
    by (simp add: local_config_def query_suffix_def)
  with B C show ?thesis by blast
qed

subsection \<open>Defaults of the list tools\<close>

lemma join_nonempty: "x \<noteq> [] \<Longrightarrow> join sep (x # xs) \<noteq> []"
  by (cases xs) simp_all

lemma toString_nonempty: "query \<noteq> [] \<Longrightarrow> toString query \<noteq> []"
  by (cases query) (auto simp: toString_def join_nonempty split: prod.splits)

lemma query_suffix_nonempty: "query \<noteq> [] \<Longrightarrow> query_suffix (toString query) = ''?'' @ toString query"
  by (simp add: query_suffix_def toString_nonempty)

lemma filter_nonempty: "filter P xs = [y] \<Longrightarrow> xs \<noteq> []"
  by auto

lemma Number_toString_defaults [simp]: "Number_toString 50 = ''50''" "Number_toString 0 = ''0''"
  by (simp_all add: Number_toString_def Number_magnitude_def)

lemma list_skills_defaults:
  assumes "ListSkillsInputSchema raw = Some input'"
    and "ListSkillsInput.limit raw = None" and "ListSkillsInput.offset raw = None"
  shows "\<exists>query. url (sent (alfred_list_skills cfg net input')) = baseUrl cfg @ ''/skills?'' @ toString query
           \<and> filter (\<lambda>param. fst param = ''limit'') query = [(''limit'', ''50'')]
           \<and> filter (\<lambda>param. fst param = ''offset'') query = [(''offset'', ''0'')]"
proof -
  let ?entries = "[(''isActive'', opt_bool (ListSkillsInput.isActive input')),
                     (''triggerType'', opt_str (ListSkillsInput.triggerType input')),
                     (''isSystem'', opt_bool (ListSkillsInput.isSystem input')),
                     (''limit'', js_or (JNum (ListSkillsInput.limit input')) (JNum 50)),
                     (''offset'', js_or (JNum (ListSkillsInput.offset input')) (JNum 0)),
                     (''sortBy'', opt_str (ListSkillsInput.sortBy input')),
                     (''sortOrder'', opt_str (ListSkillsInput.sortOrder input'))]"
  let ?query = "build_query (Some ?entries)"
  from assms have lo: "ListSkillsInput.limit input' = 50" "ListSkillsInput.offset input' = 0"
    by (auto simp: ListSkillsInputSchema_def default_def split: if_splits)
  have l: "filter (\<lambda>param. fst param = ''limit'') ?query = [(''limit'', ''50'')]"
    by (simp add: filter_key_build_query lo js_or_def)
  have o: "filter (\<lambda>param. fst param = ''offset'') ?query = [(''offset'', ''0'')]"
    by (simp add: filter_key_build_query lo js_or_def)
  have "url (sent (alfred_list_skills cfg net input')) = baseUrl cfg @ ''/skills'' @ query_suffix (toString ?query)"
    by (simp add: alfred_list_skills_def Let_def sent_bind listSkills_def url_sent_request)
  also have "\<dots> = baseUrl cfg @ ''/skills?'' @ toString ?query"
    using filter_nonempty[OF l] by (simp add: query_suffix_nonempty)
  finally show ?thesis using l o by blast
qed

lemma list_connections_defaults:
  assumes "ListConnectionsInputSchema raw = Some input'"
    and "ListConnectionsInput.limit raw = None" and "ListConnectionsInput.offset raw = None"
  shows "\<exists>query. url (sent (alfred_list_connections cfg net input')) = baseUrl cfg @ ''/connections?'' @ toString query
           \<and> filter (\<lambda>param. fst param = ''limit'') query = [(''limit'', ''50'')]
           \<and> filter (\<lambda>param. fst param = ''offset'') query = [(''offset'', ''0'')]"
proof -
  let ?entries = "[(''isActive'', opt_bool (ListConnectionsInput.isActive input')),
                     (''type'', opt_str (ListConnectionsInput.type input')),
                     (''source'', opt_str (ListConnectionsInput.source input')),
                     (''authStatus'', opt_str (ListConnectionsInput.authStatus input')),
                     (''limit'', js_or (JNum (ListConnectionsInput.limit input')) (JNum 50)),
                     (''offset'', js_or (JNum (ListConnectionsInput.offset input')) (JNum 0)),
                     (''sortBy'', opt_str (ListConnectionsInput.sortBy input')),
                     (''sortOrder'', opt_str (ListConnectionsInput.sortOrder input'))]"
  let ?query = "build_query (Some ?entries)"
  from assms have lo: "ListConnectionsInput.limit input' = 50" "ListConnectionsInput.offset input' = 0"
    by (auto simp: ListConnectionsInputSchema_def default_def split: if_splits)
  have l: "filter (\<lambda>param. fst param = ''limit'') ?query = [(''limit'', ''50'')]"
    by (simp add: filter_key_build_query lo js_or_def)
  have o: "filter (\<lambda>param. fst param = ''offset'') ?query = [(''offset'', ''0'')]"
    by (simp add: filter_key_build_query lo js_or_def)
  have "url (sent (alfred_list_connections cfg net input'))
          = baseUrl cfg @ ''/connections'' @ query_suffix (toString ?query)"
    by (simp add: alfred_list_connections_def Let_def sent_bind listConnections_def url_sent_request)
  also have "\<dots> = baseUrl cfg @ ''/connections?'' @ toString ?query"
    using filter_nonempty[OF l] by (simp add: query_suffix_nonempty)
  finally show ?thesis using l o by blast
qed

lemma list_executions_defaults:
  assumes "list_executions_inputSchema uuid datetime raw = Some params"
    and "ListExecutionsInput.limit raw = None" and "ListExecutionsInput.offset raw = None"
  shows "\<exists>query. url (sent (alfred_list_executions cfg net params)) = baseUrl cfg @ ''/executions?'' @ toString query
           \<and> filter (\<lambda>param. fst param = ''limit'') query = [(''limit'', ''50'')]
           \<and> filter (\<lambda>param. fst param = ''offset'') query = [(''offset'', ''0'')]"
proof -
  let ?entries = "[(''skillId'', opt_str (ListExecutionsInput.skillId params)),
                     (''status'', opt_str (ListExecutionsInput.status params)),
                     (''trigger'', opt_str (ListExecutionsInput.trigger params)),
                     (''startDate'', opt_str (ListExecutionsInput.startDate params)),
                     (''endDate'', opt_str (ListExecutionsInput.endDate params)),
                     (''limit'', JNum (ListExecutionsInput.limit params)),
                     (''offset'', JNum (ListExecutionsInput.offset params)),
                     (''sortBy'', opt_str (ListExecutionsInput.sortBy params)),
                     (''sortOrder'', opt_str (ListExecutionsInput.sortOrder params))]"
  let ?query = "build_query (Some ?entries)"
  from assms have lo: "ListExecutionsInput.limit params = 50" "ListExecutionsInput.offset params = 0"
    by (auto simp: list_executions_inputSchema_def default_def split: if_splits)
  have l: "filter (\<lambda>param. fst param = ''limit'') ?query = [(''limit'', ''50'')]"
    by (simp add: filter_key_build_query lo)
  have o: "filter (\<lambda>param. fst param = ''offset'') ?query = [(''offset'', ''0'')]"
    by (simp add: filter_key_build_query lo)
  have "url (sent (alfred_list_executions cfg net params))
          = baseUrl cfg @ ''/executions'' @ query_suffix (toString ?query)"
    by (simp add: alfred_list_executions_def Let_def sent_bind listExecutions_def url_sent_request)
  also have "\<dots> = baseUrl cfg @ ''/executions?'' @ toString ?query"
    using filter_nonempty[OF l] by (simp add: query_suffix_nonempty)
  finally show ?thesis using l o by blast
qed

text \<open>
  Claim C6. For \<open>alfred_list_skills\<close>, \<open>alfred_list_connections\<close> and
  \<open>alfred_list_executions\<close>: when the caller's input passes the tool's schema and leaves
  \<open>limit\<close> and \<open>offset\<close> out, the outbound request carries the query parameters
  \<open>limit=50\<close> and \<open>offset=0\<close>, each once.
\<close>

theorem list_defaults:
  "(ListSkillsInputSchema skills_raw = Some skills_input
      \<and> ListSkillsInput.limit skills_raw = None \<and> ListSkillsInput.offset skills_raw = None
    \<longrightarrow> (\<exists>query. url (sent (alfred_list_skills cfg net1 skills_input))
                     = baseUrl cfg @ ''/skills?'' @ toString query
           \<and> filter (\<lambda>param. fst param = ''limit'') query = [(''limit'', ''50'')]
           \<and> filter (\<lambda>param. fst param = ''offset'') query = [(''offset'', ''0'')]))
   \<and> (ListConnectionsInputSchema connections_raw = Some connections_input
      \<and> ListConnectionsInput.limit connections_raw = None
      \<and> ListConnectionsInput.offset connections_raw = None
    \<longrightarrow> (\<exists>query. url (sent (alfred_list_connections cfg net2 connections_input))
                     = baseUrl cfg @ ''/connections?'' @ toString query
           \<and> filter (\<lambda>param. fst param = ''limit'') query = [(''limit'', ''50'')]
           \<and> filter (\<lambda>param. fst param = ''offset'') query = [(''offset'', ''0'')]))
   \<and> (list_executions_inputSchema uuid datetime executions_raw = Some executions_input
      \<and> ListExecutionsInput.limit executions_raw = None
      \<and> ListExecutionsInput.offset executions_raw = None
    \<longrightarrow> (\<exists>query. url (sent (alfred_list_executions cfg net3 executions_input))
                     = baseUrl cfg @ ''/executions?'' @ toString query
           \<and> filter (\<lambda>param. fst param = ''limit'') query = [(''limit'', ''50'')]
           \<and> filter (\<lambda>param. fst param = ''offset'') query = [(''offset'', ''0'')]))"
  using list_skills_defaults list_connections_defaults list_executions_defaults by blast

theorem list_defaults_witness:
  "ListSkillsInputSchema (no_skill_filters None None) = Some (no_skill_filters 50 0)
   \<and> ListSkillsInput.limit (no_skill_filters None None :: int option ListSkillsInput) = None
   \<and> ListSkillsInput.offset (no_skill_filters None None :: int option ListSkillsInput) = None
   \<and> (\<exists>query. url (sent (alfred_list_skills local_config (remote Never) (no_skill_filters 50 0)))
                  = ''http://localhost:3001/api/v1/skills?'' @ toString query
          \<and> filter (\<lambda>param. fst param = ''limit'') query = [(''limit'', ''50'')]
          \<and> filter (\<lambda>param. fst param = ''offset'') query = [(''offset'', ''0'')])
   \<and> ListConnectionsInputSchema (no_connection_filters None None) = Some (no_connection_filters 50 0)
   \<and> (\<exists>query. url (sent (alfred_list_connections local_config (remote Never) (no_connection_filters 50 0)))
                  = ''http://localhost:3001/api/v1/connections?'' @ toString query
          \<and> filter (\<lambda>param. fst param = ''limit'') query = [(''limit'', ''50'')]
          \<and> filter (\<lambda>param. fst param = ''offset'') query = [(''offset'', ''0'')])
   \<and> list_executions_inputSchema any_format any_format (no_execution_filters None None)
       = Some (no_execution_filters 50 0)
   \<and> (\<exists>query. url (sent (alfred_list_executions local_config (remote Never) (no_execution_filters 50 0)))
                  = ''http://localhost:3001/api/v1/executions?'' @ toString query
          \<and> filter (\<lambda>param. fst param = ''limit'') query = [(''limit'', ''50'')]
          \<and> filter (\<lambda>param. fst param = ''offset'') query = [(''offset'', ''0'')])"
proof -
  have s: "ListSkillsInputSchema (no_skill_filters None None) = Some (no_skill_filters 50 0)"
    "ListSkillsInput.limit (no_skill_filters None None :: int option ListSkillsInput) = None"
    "ListSkillsInput.offset (no_skill_filters None None :: int option ListSkillsInput) = None"
    by (simp_all add: ListSkillsInputSchema_def no_skill_filters_def optional_enum_def default_def)
  have c: "ListConnectionsInputSchema (no_connection_filters None None) = Some (no_connection_filters 50 0)"
    "ListConnectionsInput.limit (no_connection_filters None None :: int option ListConnectionsInput) = None"
    "ListConnectionsInput.offset (no_connection_filters None None :: int option ListConnectionsInput) = None"
    by (simp_all add: ListConnectionsInputSchema_def no_connection_filters_def optional_enum_def default_def)
  have e: "list_executions_inputSchema any_format any_format (no_execution_filters None None)
       = Some (no_execution_filters 50 0)"
    "ListExecutionsInput.limit (no_execution_filters None None :: int option ListExecutionsInput) = None"
    "ListExecutionsInput.offset (no_execution_filters None None :: int option ListExecutionsInput) = None"
    by (simp_all add: list_executions_inputSchema_def no_execution_filters_def optional_enum_def
          optional_format_def default_def)
  have b: "baseUrl local_config = ''http://localhost:3001/api/v1''"
    by (simp add: local_config_def)
  from list_defaults[of "no_skill_filters None None" "no_skill_filters 50 0" local_config "remote Never"
      "no_connection_filters None None" "no_connection_filters 50 0" "remote Never"
      any_format any_format "no_execution_filters None None" "no_execution_filters 50 0" "remote Never"]
    s c e
  show ?thesis unfolding b by simp
qed

subsection \<open>Patch payloads\<close>

lemma map_of_assign: "map_of (assign obj k v) = (map_of obj)(k \<mapsto> v)"
  by (simp add: assign_def update_conv')

lemma distinct_assign: "distinct (map fst obj) \<Longrightarrow> distinct (map fst (assign obj k v))"
  by (simp add: assign_def distinct_update)

lemma map_of_optional_assign:
  "map_of (case supplied of None \<Rightarrow> obj | Some v \<Rightarrow> assign obj k (f v)) =
     (\<lambda>field. if field = k \<and> supplied \<noteq> None then map_option f supplied else map_of obj field)"
  by (cases supplied) (auto simp: map_of_assign)

lemma distinct_optional_assign:
  "distinct (map fst obj) \<Longrightarrow>
     distinct (map fst (case supplied of None \<Rightarrow> obj | Some v \<Rightarrow> assign obj k (f v)))"
  by (cases supplied) (auto simp: distinct_assign)

lemma patch_skill_fields:
  "map_of (patch_skill_updateFields patch) field =
       (if field = ''name'' then map_option JStr (PatchSkillInput.name patch)
        else if field = ''description'' then map_option JStr (PatchSkillInput.description patch)
        else if field = ''triggerType'' then map_option JStr (PatchSkillInput.triggerType patch)
        else if field = ''steps''
        then map_option (\<lambda>steps. JArr (map js_of_SkillStep steps)) (PatchSkillInput.steps patch)
        else if field = ''connectionNames''
        then map_option js_strings (PatchSkillInput.connectionNames patch)
        else if field = ''isActive'' then map_option JBool (PatchSkillInput.isActive patch)
        else None)"
  unfolding patch_skill_updateFields_def Let_def
  by (simp add: map_of_optional_assign map_of_optional_assign[where f = "\<lambda>v. v", simplified])

lemma patch_skill_distinct: "distinct (map fst (patch_skill_updateFields patch))"
  unfolding patch_skill_updateFields_def Let_def
  by (intro distinct_optional_assign distinct_optional_assign[where f = "\<lambda>v. v", simplified]) simp

lemma patch_connection_fields:
  "map_of (patch_connection_updateFields patch) field =
       (if field = ''name'' then map_option JStr (PatchConnectionInput.name patch)
        else if field = ''type'' then map_option JStr (PatchConnectionInput.type patch)
        else if field = ''config'' then PatchConnectionInput.config patch
        else if field = ''isActive'' then map_option JBool (PatchConnectionInput.isActive patch)
        else None)"
  unfolding patch_connection_updateFields_def Let_def
  by (simp add: map_of_optional_assign map_of_optional_assign[where f = "\<lambda>v. v", simplified]
        option.map_ident)

lemma patch_connection_distinct: "distinct (map fst (patch_connection_updateFields patch))"
  unfolding patch_connection_updateFields_def Let_def
  by (intro distinct_optional_assign distinct_optional_assign[where f = "\<lambda>v. v", simplified]) simp

lemma body_sent_object: "body (sent (request cfg net m p (JObj obj))) = Some (JObj obj)"
  by (simp add: sent_request)

lemma method_sent_request: "method (sent (request cfg net m p b)) = m"
  by (simp add: sent_request)

text \<open>
  Claim C4. For \<open>alfred_patch_skill\<close> and \<open>alfred_patch_connection\<close> and every input, the
  body of the outbound \<open>PATCH\<close> request is the object \<open>updateFields\<close>, whose keys are
  distinct and which maps each field that the caller supplied to the supplied value and
  has no other field.
\<close>

theorem patch_payload_exact:
  "method (sent (alfred_patch_skill cfg net1 skill_patch)) = ''PATCH''
   \<and> body (sent (alfred_patch_skill cfg net1 skill_patch))
       = Some (JObj (patch_skill_updateFields skill_patch))
   \<and> distinct (map fst (patch_skill_updateFields skill_patch))
   \<and> (\<forall>field. map_of (patch_skill_updateFields skill_patch) field =
       (if field = ''name'' then map_option JStr (PatchSkillInput.name skill_patch)
        else if field = ''description'' then map_option JStr (PatchSkillInput.description skill_patch)
        else if field = ''triggerType'' then map_option JStr (PatchSkillInput.triggerType skill_patch)
        else if field = ''steps''
        then map_option (\<lambda>steps. JArr (map js_of_SkillStep steps)) (PatchSkillInput.steps skill_patch)
        else if field = ''connectionNames''
        then map_option js_strings (PatchSkillInput.connectionNames skill_patch)
        else if field = ''isActive'' then map_option JBool (PatchSkillInput.isActive skill_patch)
        else None))
   \<and> method (sent (alfred_patch_connection cfg net2 connection_patch)) = ''PATCH''
   \<and> body (sent (alfred_patch_connection cfg net2 connection_patch))
       = Some (JObj (patch_connection_updateFields connection_patch))
   \<and> distinct (map fst (patch_connection_updateFields connection_patch))
   \<and> (\<forall>field. map_of (patch_connection_updateFields connection_patch) field =
       (if field = ''name'' then map_option JStr (PatchConnectionInput.name connection_patch)
        else if field = ''type'' then map_option JStr (PatchConnectionInput.type connection_patch)
        else if field = ''config'' then PatchConnectionInput.config connection_patch
        else if field = ''isActive'' then map_option JBool (PatchConnectionInput.isActive connection_patch)
        else None))"
proof -
  have "sent (alfred_patch_skill cfg net1 skill_patch)
          = sent (request cfg net1 ''PATCH'' (''/skills/'' @ PatchSkillInput.skillId skill_patch)
                    (JObj (patch_skill_updateFields skill_patch)))"
    by (simp add: alfred_patch_skill_def Let_def sent_bind patchSkill_def)
  moreover have "sent (alfred_patch_connection cfg net2 connection_patch)
          = sent (request cfg net2 ''PATCH''
                    (''/connections/'' @ PatchConnectionInput.connectionId connection_patch)
                    (JObj (patch_connection_updateFields connection_patch)))"
    by (simp add: alfred_patch_connection_def Let_def sent_bind patchConnection_def)
  ultimately show ?thesis
    by (simp only: body_sent_object method_sent_request patch_skill_fields patch_skill_distinct
          patch_connection_fields patch_connection_distinct simp_thms)
qed

theorem patch_payload_exact_witness:
  "body (sent (alfred_patch_skill local_config (remote Never)
                 \<lparr>PatchSkillInput.skillId = ''abc'', name = Some ''renamed'', description = None,
                  triggerType = None, steps = None, connectionNames = None, isActive = None\<rparr>))
     = Some (JObj [(''name'', JStr ''renamed'')])
   \<and> body (sent (alfred_patch_connection local_config (remote Never)
                 \<lparr>PatchConnectionInput.connectionId = ''c1'', name = None, type = None,
                  config = None, isActive = Some False\<rparr>))
     = Some (JObj [(''isActive'', JBool False)])"
proof -
  let ?s = "\<lparr>PatchSkillInput.skillId = ''abc'', name = Some ''renamed'', description = None,
                  triggerType = None, steps = None, connectionNames = None, isActive = None\<rparr>"
  let ?c = "\<lparr>PatchConnectionInput.connectionId = ''c1'', name = None, type = None,
                  config = None, isActive = Some False\<rparr>"
  have s: "patch_skill_updateFields ?s = [(''name'', JStr ''renamed'')]"
    by (simp add: patch_skill_updateFields_def assign_def)
  have c: "patch_connection_updateFields ?c = [(''isActive'', JBool False)]"
    by (simp add: patch_connection_updateFields_def assign_def)
  from patch_payload_exact[of local_config "remote Never" ?s "remote Never" ?c]
  show ?thesis unfolding s c by blast
qed

subsection \<open>No exception leaves a tool\<close>

lemma request_pending_stalled:
  assumes "fst (request cfg net m p b) = None"
  shows "stalled cfg net (sent (request cfg net m p b))"
proof (cases "respond net (sent (request cfg net m p b))")
  case Never
  from request_Never(1)[OF this] assms show ?thesis by simp
next
  case (Responds d r)
  from request_Responds(1)[OF this] assms show ?thesis
    by (auto simp: stalled_def Responds split: if_splits option.splits sum.splits)
next
  case (Rejects d msg)
  from request_Rejects(1)[OF this] assms show ?thesis by (simp split: if_splits)
qed

lemma tool_settles:
  "(\<exists>r. try_catch (await (fst (request cfg net m p b)) k) h = Some (Inr r))
   \<or> try_catch (await (fst (request cfg net m p b)) k) h = None
     \<and> stalled cfg net (sent (request cfg net m p b))"
proof (cases "fst (request cfg net m p b)")
  case None
  with request_pending_stalled[OF None] show ?thesis by simp
next
  case (Some settled)
  then show ?thesis by (cases settled; cases "k (projr settled)") auto
qed

text \<open>
  Claim C9. Each of the twenty tool handlers returns a result (\<open>Inr\<close>, never the \<open>Inl\<close> of a
  thrown error) for every outcome of its one client call: a success envelope, a failure
  envelope, no answer in time, a failed connection, a non-2xx status, a body that is not
  JSON. The one case in which a handler yields nothing is the one in which its client
  call has no outcome, the remote service stalling after the headers; the handler is then
  pending, and throws nothing either.
\<close>

theorem tools_never_throw:
  "((\<exists>r. fst (alfred_list_skills cfg net1 list_skills_input) = Some (Inr r))
      \<or> fst (alfred_list_skills cfg net1 list_skills_input) = None
        \<and> stalled cfg net1 (sent (alfred_list_skills cfg net1 list_skills_input)))
   \<and> ((\<exists>r. fst (alfred_get_skill cfg net2 get_skill_id) = Some (Inr r))
      \<or> fst (alfred_get_skill cfg net2 get_skill_id) = None
        \<and> stalled cfg net2 (sent (alfred_get_skill cfg net2 get_skill_id)))
   \<and> ((\<exists>r. fst (alfred_create_skill cfg net3 create_skill_input) = Some (Inr r))
      \<or> fst (alfred_create_skill cfg net3 create_skill_input) = None
        \<and> stalled cfg net3 (sent (alfred_create_skill cfg net3 create_skill_input)))
   \<and> ((\<exists>r. fst (alfred_update_skill cfg net4 update_skill_input) = Some (Inr r))
      \<or> fst (alfred_update_skill cfg net4 update_skill_input) = None
        \<and> stalled cfg net4 (sent (alfred_update_skill cfg net4 update_skill_input)))
   \<and> ((\<exists>r. fst (alfred_patch_skill cfg net5 patch_skill_input) = Some (Inr r))
      \<or> fst (alfred_patch_skill cfg net5 patch_skill_input) = None
        \<and> stalled cfg net5 (sent (alfred_patch_skill cfg net5 patch_skill_input)))
   \<and> ((\<exists>r. fst (alfred_delete_skill cfg net6 delete_skill_id delete_skill_force) = Some (Inr r))
      \<or> fst (alfred_delete_skill cfg net6 delete_skill_id delete_skill_force) = None
        \<and> stalled cfg net6 (sent (alfred_delete_skill cfg net6 delete_skill_id delete_skill_force)))
   \<and> ((\<exists>r. fst (alfred_list_connections cfg net7 list_connections_input) = Some (Inr r))
      \<or> fst (alfred_list_connections cfg net7 list_connections_input) = None
        \<and> stalled cfg net7 (sent (alfred_list_connections cfg net7 list_connections_input)))
   \<and> ((\<exists>r. fst (alfred_get_connection cfg net8 get_connection_id) = Some (Inr r))
      \<or> fst (alfred_get_connection cfg net8 get_connection_id) = None
        \<and> stalled cfg net8 (sent (alfred_get_connection cfg net8 get_connection_id)))
   \<and> ((\<exists>r. fst (alfred_create_connection cfg net9 create_connection_input) = Some (Inr r))
      \<or> fst (alfred_create_connection cfg net9 create_connection_input) = None
        \<and> stalled cfg net9 (sent (alfred_create_connection cfg net9 create_connection_input)))
   \<and> ((\<exists>r. fst (alfred_update_connection cfg net10 update_connection_input) = Some (Inr r))
      \<or> fst (alfred_update_connection cfg net10 update_connection_input) = None
        \<and> stalled cfg net10 (sent (alfred_update_connection cfg net10 update_connection_input)))
   \<and> ((\<exists>r. fst (alfred_patch_connection cfg net11 patch_connection_input) = Some (Inr r))
      \<or> fst (alfred_patch_connection cfg net11 patch_connection_input) = None
        \<and> stalled cfg net11 (sent (alfred_patch_connection cfg net11 patch_connection_input)))
   \<and> ((\<exists>r. fst (alfred_delete_connection cfg net12 delete_connection_id) = Some (Inr r))
      \<or> fst (alfred_delete_connection cfg net12 delete_connection_id) = None
        \<and> stalled cfg net12 (sent (alfred_delete_connection cfg net12 delete_connection_id)))
   \<and> ((\<exists>r. fst (alfred_list_executions cfg net13 list_executions_input) = Some (Inr r))
      \<or> fst (alfred_list_executions cfg net13 list_executions_input) = None
        \<and> stalled cfg net13 (sent (alfred_list_executions cfg net13 list_executions_input)))
   \<and> ((\<exists>r. fst (alfred_get_execution cfg net14 get_execution_id) = Some (Inr r))
      \<or> fst (alfred_get_execution cfg net14 get_execution_id) = None
        \<and> stalled cfg net14 (sent (alfred_get_execution cfg net14 get_execution_id)))
   \<and> ((\<exists>r. fst (alfred_get_execution_trace cfg net15 trace_execution_id) = Some (Inr r))
      \<or> fst (alfred_get_execution_trace cfg net15 trace_execution_id) = None
        \<and> stalled cfg net15 (sent (alfred_get_execution_trace cfg net15 trace_execution_id)))
   \<and> ((\<exists>r. fst (alfred_get_execution_stats cfg net16 stats_start stats_end stats_skill) = Some (Inr r))
      \<or> fst (alfred_get_execution_stats cfg net16 stats_start stats_end stats_skill) = None
        \<and> stalled cfg net16 (sent (alfred_get_execution_stats cfg net16 stats_start stats_end stats_skill)))
   \<and> ((\<exists>r. fst (alfred_delete_execution cfg net17 delete_execution_id) = Some (Inr r))
      \<or> fst (alfred_delete_execution cfg net17 delete_execution_id) = None
        \<and> stalled cfg net17 (sent (alfred_delete_execution cfg net17 delete_execution_id)))
   \<and> ((\<exists>r. fst (alfred_create_api_key cfg net18 create_key_input) = Some (Inr r))
      \<or> fst (alfred_create_api_key cfg net18 create_key_input) = None
        \<and> stalled cfg net18 (sent (alfred_create_api_key cfg net18 create_key_input)))
   \<and> ((\<exists>r. fst (alfred_list_api_keys cfg net19) = Some (Inr r))
      \<or> fst (alfred_list_api_keys cfg net19) = None
        \<and> stalled cfg net19 (sent (alfred_list_api_keys cfg net19)))
   \<and> ((\<exists>r. fst (alfred_delete_api_key cfg net20 delete_key_id) = Some (Inr r))
      \<or> fst (alfred_delete_api_key cfg net20 delete_key_id) = None
        \<and> stalled cfg net20 (sent (alfred_delete_api_key cfg net20 delete_key_id)))"
proof -
  have skills:
    "(\<exists>r. fst (alfred_list_skills cfg net1 list_skills_input) = Some (Inr r))
     \<or> fst (alfred_list_skills cfg net1 list_skills_input) = None
       \<and> stalled cfg net1 (sent (alfred_list_skills cfg net1 list_skills_input))"
    "(\<exists>r. fst (alfred_get_skill cfg net2 get_skill_id) = Some (Inr r))
     \<or> fst (alfred_get_skill cfg net2 get_skill_id) = None
       \<and> stalled cfg net2 (sent (alfred_get_skill cfg net2 get_skill_id))"
    "(\<exists>r. fst (alfred_create_skill cfg net3 create_skill_input) = Some (Inr r))
     \<or> fst (alfred_create_skill cfg net3 create_skill_input) = None
       \<and> stalled cfg net3 (sent (alfred_create_skill cfg net3 create_skill_input))"
    "(\<exists>r. fst (alfred_update_skill cfg net4 update_skill_input) = Some (Inr r))
     \<or> fst (alfred_update_skill cfg net4 update_skill_input) = None
       \<and> stalled cfg net4 (sent (alfred_update_skill cfg net4 update_skill_input))"
    "(\<exists>r. fst (alfred_patch_skill cfg net5 patch_skill_input) = Some (Inr r))
     \<or> fst (alfred_patch_skill cfg net5 patch_skill_input) = None
       \<and> stalled cfg net5 (sent (alfred_patch_skill cfg net5 patch_skill_input))"
    "(\<exists>r. fst (alfred_delete_skill cfg net6 delete_skill_id delete_skill_force) = Some (Inr r))
     \<or> fst (alfred_delete_skill cfg net6 delete_skill_id delete_skill_force) = None
       \<and> stalled cfg net6 (sent (alfred_delete_skill cfg net6 delete_skill_id delete_skill_force))"
    unfolding alfred_list_skills_def alfred_get_skill_def alfred_create_skill_def
      alfred_update_skill_def alfred_patch_skill_def alfred_delete_skill_def
      listSkills_def getSkill_def createSkill_def updateSkill_def patchSkill_def deleteSkill_def
      Let_def fst_bind sent_bind
    by (rule tool_settles)+
  have connections:
    "(\<exists>r. fst (alfred_list_connections cfg net7 list_connections_input) = Some (Inr r))
     \<or> fst (alfred_list_connections cfg net7 list_connections_input) = None
       \<and> stalled cfg net7 (sent (alfred_list_connections cfg net7 list_connections_input))"
    "(\<exists>r. fst (alfred_get_connection cfg net8 get_connection_id) = Some (Inr r))
     \<or> fst (alfred_get_connection cfg net8 get_connection_id) = None
       \<and> stalled cfg net8 (sent (alfred_get_connection cfg net8 get_connection_id))"
    "(\<exists>r. fst (alfred_create_connection cfg net9 create_connection_input) = Some (Inr r))
     \<or> fst (alfred_create_connection cfg net9 create_connection_input) = None
       \<and> stalled cfg net9 (sent (alfred_create_connection cfg net9 create_connection_input))"
    "(\<exists>r. fst (alfred_update_connection cfg net10 update_connection_input) = Some (Inr r))
     \<or> fst (alfred_update_connection cfg net10 update_connection_input) = None
       \<and> stalled cfg net10 (sent (alfred_update_connection cfg net10 update_connection_input))"
    "(\<exists>r. fst (alfred_patch_connection cfg net11 patch_connection_input) = Some (Inr r))
     \<or> fst (alfred_patch_connection cfg net11 patch_connection_input) = None
       \<and> stalled cfg net11 (sent (alfred_patch_connection cfg net11 patch_connection_input))"
    "(\<exists>r. fst (alfred_delete_connection cfg net12 delete_connection_id) = Some (Inr r))
     \<or> fst (alfred_delete_connection cfg net12 delete_connection_id) = None
       \<and> stalled cfg net12 (sent (alfred_delete_connection cfg net12 delete_connection_id))"
    unfolding alfred_list_connections_def alfred_get_connection_def alfred_create_connection_def
      alfred_update_connection_def alfred_patch_connection_def alfred_delete_connection_def
      listConnections_def getConnection_def createConnection_def updateConnection_def
      patchConnection_def deleteConnection_def
      Let_def fst_bind sent_bind
    by (rule tool_settles)+
  have executions:
    "(\<exists>r. fst (alfred_list_executions cfg net13 list_executions_input) = Some (Inr r))
     \<or> fst (alfred_list_executions cfg net13 list_executions_input) = None
       \<and> stalled cfg net13 (sent (alfred_list_executions cfg net13 list_executions_input))"
    "(\<exists>r. fst (alfred_get_execution cfg net14 get_execution_id) = Some (Inr r))
     \<or> fst (alfred_get_execution cfg net14 get_execution_id) = None
       \<and> stalled cfg net14 (sent (alfred_get_execution cfg net14 get_execution_id))"
    "(\<exists>r. fst (alfred_get_execution_trace cfg net15 trace_execution_id) = Some (Inr r))
     \<or> fst (alfred_get_execution_trace cfg net15 trace_execution_id) = None
       \<and> stalled cfg net15 (sent (alfred_get_execution_trace cfg net15 trace_execution_id))"
    "(\<exists>r. fst (alfred_get_execution_stats cfg net16 stats_start stats_end stats_skill) = Some (Inr r))
     \<or> fst (alfred_get_execution_stats cfg net16 stats_start stats_end stats_skill) = None
       \<and> stalled cfg net16 (sent (alfred_get_execution_stats cfg net16 stats_start stats_end stats_skill))"
    "(\<exists>r. fst (alfred_delete_execution cfg net17 delete_execution_id) = Some (Inr r))
     \<or> fst (alfred_delete_execution cfg net17 delete_execution_id) = None
       \<and> stalled cfg net17 (sent (alfred_delete_execution cfg net17 delete_execution_id))"
    unfolding alfred_list_executions_def alfred_get_execution_def alfred_get_execution_trace_def
      alfred_get_execution_stats_def alfred_delete_execution_def
      listExecutions_def getExecution_def getExecutionTrace_def getExecutionStats_def
      deleteExecution_def
      Let_def fst_bind sent_bind
    by (rule tool_settles)+
  have auth:
    "(\<exists>r. fst (alfred_create_api_key cfg net18 create_key_input) = Some (Inr r))
     \<or> fst (alfred_create_api_key cfg net18 create_key_input) = None
       \<and> stalled cfg net18 (sent (alfred_create_api_key cfg net18 create_key_input))"
    "(\<exists>r. fst (alfred_list_api_keys cfg net19) = Some (Inr r))
     \<or> fst (alfred_list_api_keys cfg net19) = None
       \<and> stalled cfg net19 (sent (alfred_list_api_keys cfg net19))"
    "(\<exists>r. fst (alfred_delete_api_key cfg net20 delete_key_id) = Some (Inr r))
     \<or> fst (alfred_delete_api_key cfg net20 delete_key_id) = None
       \<and> stalled cfg net20 (sent (alfred_delete_api_key cfg net20 delete_key_id))"
    unfolding alfred_create_api_key_def alfred_list_api_keys_def alfred_delete_api_key_def
      createApiKey_def listApiKeys_def deleteApiKey_def
      Let_def fst_bind sent_bind
    by (rule tool_settles)+
  from skills connections executions auth show ?thesis by blast
qed

subsection \<open>The secret of an API key\<close>










lemma ok_public [simp]: "ok (public_response r) = ok r"
  by (simp add: ok_def public_response_def)






end
